theory Spec2Isabelle
  imports Main "HOL-Library.Char_ord" "HOL-Library.List_Lexorder"
begin

section \<open>Text\<close>

text \<open>
  Python strings are modelled as \<open>string\<close>, read as UTF-8 bytes. The case mappings
  below act on the ASCII letters only. That is exact for every comparison the program
  makes after \<open>lower()\<close>: the only characters outside ASCII whose lower-case form
  contains an ASCII character are U+0130 (giving \<open>i\<close>) and U+212A (giving \<open>k\<close>),
  and neither letter occurs in \<open>.mp4\<close>, \<open>.m4v\<close>, \<open>.mov\<close> or \<open>mp3\<close>.
\<close>

definition lower_char :: "char \<Rightarrow> char" where
  "lower_char c =
     (case map_of (zip ''ABCDEFGHIJKLMNOPQRSTUVWXYZ'' ''abcdefghijklmnopqrstuvwxyz'') c of
        None \<Rightarrow> c | Some d \<Rightarrow> d)"

definition upper_char :: "char \<Rightarrow> char" where
  "upper_char c =
     (case map_of (zip ''abcdefghijklmnopqrstuvwxyz'' ''ABCDEFGHIJKLMNOPQRSTUVWXYZ'') c of
        None \<Rightarrow> c | Some d \<Rightarrow> d)"

definition lower :: "string \<Rightarrow> string" where
  "lower s = map lower_char s"

definition upper :: "string \<Rightarrow> string" where
  "upper s = map upper_char s"

text \<open>
  The ASCII characters that \<open>str.strip()\<close> removes. White space outside ASCII is
  not modelled; \<open>strip\<close> is applied to the answers to prompts only.
\<close>

definition is_space :: "char \<Rightarrow> bool" where
  "is_space c \<longleftrightarrow>
     c \<in> set [CHR 0x20, CHR 0x09, CHR 0x0A, CHR 0x0B, CHR 0x0C, CHR 0x0D,
               CHR 0x1C, CHR 0x1D, CHR 0x1E, CHR 0x1F]"

definition strip :: "string \<Rightarrow> string" where
  "strip s = rev (dropWhile is_space (rev (dropWhile is_space s)))"

text \<open>\<open>sep.join(xs)\<close>.\<close>

fun join :: "string \<Rightarrow> string list \<Rightarrow> string" where
  "join sep [] = []"
| "join sep [x] = x"
| "join sep (x # y # ys) = x @ sep @ join sep (y # ys)"

text \<open>\<open>str(n)\<close> for an integer: decimal digits, with a minus sign when negative.\<close>

fun str_nat :: "nat \<Rightarrow> string" where
  "str_nat n =
     (if n < 10 then [''0123456789'' ! n]
      else str_nat (n div 10) @ [''0123456789'' ! (n mod 10)])"

definition str_int :: "int \<Rightarrow> string" where
  "str_int i = (if i < 0 then CHR ''-'' # str_nat (nat (- i)) else str_nat (nat i))"

section \<open>Paths\<close>

text \<open>
  A \<open>Path\<close> is an absolute, resolved path: the list of its components below the root.
  \<open>sorted()\<close> compares paths component by component, each component as a string,
  which is the lexicographic order of \<open>string list\<close>.
\<close>

type_synonym path = "string list"

definition path_str :: "path \<Rightarrow> string" where
  "path_str p = CHR ''/'' # join ''/'' p"

definition name :: "path \<Rightarrow> string" where
  "name p = (if p = [] then [] else last p)"

definition parent :: "path \<Rightarrow> path" where
  "parent p = butlast p"

text \<open>\<open>s.rfind(c)\<close>: the last index of \<open>c\<close>, \<open>None\<close> for Python's \<open>-1\<close>.\<close>

fun rfind :: "char \<Rightarrow> string \<Rightarrow> nat option" where
  "rfind c [] = None"
| "rfind c (x # xs) =
     (case rfind c xs of
        Some i \<Rightarrow> Some (Suc i)
      | None \<Rightarrow> if x = c then Some 0 else None)"

text \<open>
  \<open>PurePath.suffix\<close> and \<open>PurePath.stem\<close>: with \<open>i = name.rfind('.')\<close>, the
  name is split at \<open>i\<close> when \<open>0 < i < len(name) - 1\<close>.
\<close>

definition suffix :: "path \<Rightarrow> string" where
  "suffix p =
     (case rfind CHR ''.'' (name p) of
        Some i \<Rightarrow> if 0 < i \<and> Suc i < length (name p) then drop i (name p) else []
      | None \<Rightarrow> [])"

definition stem :: "path \<Rightarrow> string" where
  "stem p =
     (case rfind CHR ''.'' (name p) of
        Some i \<Rightarrow> if 0 < i \<and> Suc i < length (name p) then take i (name p) else name p
      | None \<Rightarrow> name p)"

section \<open>File system\<close>

text \<open>
  The file system is a tree. A directory lists its entries in the order the operating
  system would report them; \<open>Other\<close> is an entry that exists but is neither a regular
  file nor a directory. There are no symbolic links and no permissions.
\<close>

datatype node = File | Other | Dir "(string \<times> node) list"

fun lookup :: "node \<Rightarrow> path \<Rightarrow> node option" where
  "lookup n [] = Some n"
| "lookup n (x # xs) =
     (case n of
        Dir es \<Rightarrow> (case map_of es x of None \<Rightarrow> None | Some c \<Rightarrow> lookup c xs)
      | _ \<Rightarrow> None)"

definition exists :: "node \<Rightarrow> path \<Rightarrow> bool" where
  "exists fs p = (case lookup fs p of None \<Rightarrow> False | Some _ \<Rightarrow> True)"

definition is_dir :: "node \<Rightarrow> path \<Rightarrow> bool" where
  "is_dir fs p = (case lookup fs p of Some (Dir _) \<Rightarrow> True | _ \<Rightarrow> False)"

definition is_file :: "node \<Rightarrow> path \<Rightarrow> bool" where
  "is_file fs p = (case lookup fs p of Some File \<Rightarrow> True | _ \<Rightarrow> False)"

text \<open>\<open>iterdir()\<close>: the entries of a directory.\<close>

definition iterdir :: "node \<Rightarrow> path \<Rightarrow> path list" where
  "iterdir fs p =
     (case lookup fs p of
        Some (Dir es) \<Rightarrow> map (\<lambda>e. p @ [fst e]) es
      | _ \<Rightarrow> [])"

text \<open>\<open>rglob("*")\<close>: everything below a directory, at any depth.\<close>

fun below :: "node \<Rightarrow> path list" where
  "below (Dir es) = concat (map (\<lambda>e. [fst e] # map ((#) (fst e)) (below (snd e))) es)"
| "below _ = []"

definition rglob :: "node \<Rightarrow> path \<Rightarrow> path list" where
  "rglob fs p = (case lookup fs p of Some n \<Rightarrow> map ((@) p) (below n) | None \<Rightarrow> [])"

section \<open>File Collector\<close>

definition VIDEO_EXTS :: "string set" where
  "VIDEO_EXTS = {''.mp4'', ''.m4v'', ''.mov''}"

definition iter_inputs :: "node \<Rightarrow> path \<Rightarrow> bool \<Rightarrow> path list" where
  "iter_inputs fs in_path recursive =
     (if is_dir fs in_path then
        (if recursive then
           filter (\<lambda>p. is_file fs p \<and> lower (suffix p) \<in> VIDEO_EXTS) (rglob fs in_path)
         else
           filter (\<lambda>p. is_file fs p \<and> lower (suffix p) \<in> VIDEO_EXTS) (iterdir fs in_path))
      else [in_path])"

text \<open>The two lines of \<open>main\<close> that build the Candidate File Set.\<close>

definition candidate_files :: "node \<Rightarrow> path \<Rightarrow> bool \<Rightarrow> path list" where
  "candidate_files fs in_path recursive =
     (let files = sort (iter_inputs fs in_path recursive)
      in filter (\<lambda>f. is_file fs f \<and> lower (suffix f) \<in> VIDEO_EXTS) files)"

section \<open>Parsed JSON\<close>

text \<open>
  The values \<open>json.loads\<close> returns. A float is \<open>Finite m e\<close> for \<open>m * 2 ^ e\<close>, an
  infinity or a NaN. \<open>JNull\<close> is Python's \<open>None\<close>, and an object keeps one value for
  each key.
\<close>

datatype pyfloat = Finite int int | Infinite | NaN

datatype json =
    JNull
  | JBool bool
  | JInt int
  | JFloat pyfloat
  | JStr string
  | JArr "json list"
  | JObj "(string \<times> json) list"

datatype exc =
    SystemExit string
  | EOFError
  | OSError
  | AttributeError
  | KeyError
  | IndexError
  | TypeError
  | ValueError
  | OverflowError

text \<open>Python's truth value of a parsed value.\<close>

fun truthy :: "json \<Rightarrow> bool" where
  "truthy JNull = False"
| "truthy (JBool b) = b"
| "truthy (JInt i) = (i \<noteq> 0)"
| "truthy (JFloat (Finite m e)) = (m \<noteq> 0)"
| "truthy (JFloat Infinite) = True"
| "truthy (JFloat NaN) = True"
| "truthy (JStr s) = (s \<noteq> [])"
| "truthy (JArr xs) = (xs \<noteq> [])"
| "truthy (JObj kvs) = (kvs \<noteq> [])"

text \<open>\<open>d.get(k)\<close>: only a dict has the method.\<close>

fun dict_get :: "json \<Rightarrow> string \<Rightarrow> exc + json" where
  "dict_get (JObj kvs) k = Inr (case map_of kvs k of None \<Rightarrow> JNull | Some v \<Rightarrow> v)"
| "dict_get _ k = Inl AttributeError"

text \<open>\<open>v[0]\<close>. The keys of a parsed object are strings, so \<open>0\<close> is never one.\<close>

fun index0 :: "json \<Rightarrow> exc + json" where
  "index0 (JArr []) = Inl IndexError"
| "index0 (JArr (x # xs)) = Inr x"
| "index0 (JStr []) = Inl IndexError"
| "index0 (JStr (c # cs)) = Inr (JStr [c])"
| "index0 (JObj kvs) = Inl KeyError"
| "index0 _ = Inl TypeError"

text \<open>
  \<open>int(v)\<close>. The parsing of a string by \<open>int\<close> is a parameter, \<open>None\<close> where it
  raises \<open>ValueError\<close>; a float is truncated towards zero.
\<close>

definition trunc_float :: "int \<Rightarrow> int \<Rightarrow> int" where
  "trunc_float m e =
     (if 0 \<le> e then m * 2 ^ nat e
      else if 0 \<le> m then m div 2 ^ nat (- e)
      else - ((- m) div 2 ^ nat (- e)))"

fun py_int :: "(string \<Rightarrow> int option) \<Rightarrow> json \<Rightarrow> exc + int" where
  "py_int parse (JInt i) = Inr i"
| "py_int parse (JBool b) = Inr (if b then 1 else 0)"
| "py_int parse (JFloat (Finite m e)) = Inr (trunc_float m e)"
| "py_int parse (JFloat Infinite) = Inl OverflowError"
| "py_int parse (JFloat NaN) = Inl ValueError"
| "py_int parse (JStr s) = (case parse s of None \<Rightarrow> Inl ValueError | Some i \<Rightarrow> Inr i)"
| "py_int parse _ = Inl TypeError"

section \<open>State and environment\<close>

text \<open>
  What a run does that can be observed: a line printed, a prompt shown by \<open>input\<close>, an
  external command run with its argument vector, a directory created with its parents.
\<close>

datatype event = Print string | Input string | Run "string list" | Mkdir path

record state =
  fs :: node
  consumed :: nat
  trace :: "event list"

definition emit :: "event \<Rightarrow> state \<Rightarrow> state" where
  "emit e s = s\<lparr>trace := trace s @ [e]\<rparr>"

text \<open>
  What \<open>check_output\<close> followed by \<open>json.loads\<close> gives for one probing command, and
  what \<open>subprocess.run\<close> gives for one transcoding command.
\<close>

datatype probe_reply = CheckOutputRaised | JsonLoadsRaised | Loaded json

datatype proc_exit = RunRaised | Returned int

text \<open>
  The environment of a run: whether \<open>shutil.which\<close> finds a tool, the two external
  tools as functions of their argument vector and of the state they are started in (the
  transcoder also gives the file system it leaves behind), the lines on standard input
  (\<open>None\<close> at end of file), and \<open>int\<close> on a string.
\<close>

record env =
  which :: "string \<Rightarrow> state \<Rightarrow> bool"
  ffprobe :: "string list \<Rightarrow> state \<Rightarrow> probe_reply"
  ffmpeg :: "string list \<Rightarrow> state \<Rightarrow> proc_exit \<times> node"
  stdin :: "nat \<Rightarrow> string option"
  int_of_str :: "string \<Rightarrow> int option"

record ProbeInfo =
  codec_name :: json
  bit_rate :: "int option"
  channels :: "int option"
  sample_rate :: "int option"

text \<open>\<open>ProbeInfo()\<close>: every field \<open>None\<close>.\<close>

definition ProbeInfo_default :: ProbeInfo where
  "ProbeInfo_default =
     \<lparr>codec_name = JNull, bit_rate = None, channels = None, sample_rate = None\<rparr>"

section \<open>Tools\<close>

definition which_or_exit :: "env \<Rightarrow> string \<Rightarrow> string \<Rightarrow> state \<Rightarrow> exc + unit" where
  "which_or_exit env cmd install_hint s =
     (if \<not> which env cmd s then Inl (SystemExit (cmd @ '' not found. '' @ install_hint))
      else Inr ())"

definition ensure_tools :: "env \<Rightarrow> state \<Rightarrow> exc + unit" where
  "ensure_tools env s =
     (case which_or_exit env ''ffmpeg'' ''Install via Homebrew: brew install ffmpeg'' s of
        Inl e \<Rightarrow> Inl e
      | Inr _ \<Rightarrow> which_or_exit env ''ffprobe'' ''Install via Homebrew: brew install ffmpeg'' s)"

section \<open>Prober\<close>

text \<open>\<open>int(s[k]) if s.get(k) else None\<close>, for \<open>s\<close> a dict.\<close>

definition int_field :: "env \<Rightarrow> json \<Rightarrow> string \<Rightarrow> exc + int option" where
  "int_field env s k =
     (case dict_get s k of
        Inl e \<Rightarrow> Inl e
      | Inr v \<Rightarrow>
          if truthy v then
            (case py_int (int_of_str env) v of Inl e \<Rightarrow> Inl e | Inr i \<Rightarrow> Inr (Some i))
          else Inr None)"

text \<open>The body of the \<open>try\<close> of \<open>ffprobe_audio_info\<close>, from the parsed output on.\<close>

definition probe_info_of :: "env \<Rightarrow> json \<Rightarrow> exc + ProbeInfo" where
  "probe_info_of env data =
     (case dict_get data ''streams'' of
        Inl e \<Rightarrow> Inl e
      | Inr v \<Rightarrow>
          let streams = (if truthy v then v else JArr []) in
          if \<not> truthy streams then Inr ProbeInfo_default
          else
            case index0 streams of
              Inl e \<Rightarrow> Inl e
            | Inr s \<Rightarrow>
                case dict_get s ''codec_name'' of
                  Inl e \<Rightarrow> Inl e
                | Inr c \<Rightarrow>
                    case int_field env s ''bit_rate'' of
                      Inl e \<Rightarrow> Inl e
                    | Inr b \<Rightarrow>
                        case int_field env s ''channels'' of
                          Inl e \<Rightarrow> Inl e
                        | Inr ch \<Rightarrow>
                            case int_field env s ''sample_rate'' of
                              Inl e \<Rightarrow> Inl e
                            | Inr sr \<Rightarrow>
                                Inr \<lparr>codec_name = c, bit_rate = b,
                                     channels = ch, sample_rate = sr\<rparr>)"

text \<open>The argument vectors of the two probing commands.\<close>

definition ffprobe_audio_info_cmd :: "path \<Rightarrow> string list" where
  "ffprobe_audio_info_cmd p =
     [''ffprobe'', ''-v'', ''error'', ''-select_streams'', ''a:0'',
      ''-show_entries'', ''stream=codec_name,bit_rate,channels,sample_rate'',
      ''-of'', ''json'', path_str p]"

definition has_audio_stream_cmd :: "path \<Rightarrow> string list" where
  "has_audio_stream_cmd p =
     [''ffprobe'', ''-v'', ''error'', ''-select_streams'', ''a'',
      ''-show_entries'', ''stream=index'', ''-of'', ''json'', path_str p]"

definition ffprobe_audio_info :: "env \<Rightarrow> path \<Rightarrow> state \<Rightarrow> (exc + ProbeInfo) \<times> state" where
  "ffprobe_audio_info env p s =
     (case ensure_tools env s of
        Inl e \<Rightarrow> (Inl e, s)
      | Inr _ \<Rightarrow>
          let cmd = ffprobe_audio_info_cmd p
          in (Inr (case ffprobe env cmd s of
                     CheckOutputRaised \<Rightarrow> ProbeInfo_default
                   | JsonLoadsRaised \<Rightarrow> ProbeInfo_default
                   | Loaded data \<Rightarrow>
                       (case probe_info_of env data of
                          Inl e \<Rightarrow> ProbeInfo_default
                        | Inr info \<Rightarrow> info)),
              emit (Run cmd) s))"

section \<open>Mode Resolver\<close>

definition autodetect_mode :: "env \<Rightarrow> path \<Rightarrow> state \<Rightarrow> (exc + string) \<times> state" where
  "autodetect_mode env p s =
     (case ffprobe_audio_info env p s of
        (Inl e, s1) \<Rightarrow> (Inl e, s1)
      | (Inr info, s1) \<Rightarrow>
          (case (if truthy (codec_name info)
                 then (case codec_name info of
                         JStr c \<Rightarrow> Inr (lower c)
                       | _ \<Rightarrow> Inl AttributeError)
                 else Inr []) of
             Inl e \<Rightarrow> (Inl e, s1)
           | Inr codec \<Rightarrow>
               if codec = ''mp3'' then (Inr ''copy'', s1)
               else if codec \<noteq> [] then (Inr ''vbr'', s1)
               else (Inr ''vbr'', s1)))"

definition has_audio_stream :: "env \<Rightarrow> path \<Rightarrow> state \<Rightarrow> (exc + bool) \<times> state" where
  "has_audio_stream env p s =
     (case ensure_tools env s of
        Inl e \<Rightarrow> (Inl e, s)
      | Inr _ \<Rightarrow>
          let cmd = has_audio_stream_cmd p
          in (Inr (case ffprobe env cmd s of
                     CheckOutputRaised \<Rightarrow> False
                   | JsonLoadsRaised \<Rightarrow> False
                   | Loaded data \<Rightarrow>
                       (case dict_get data ''streams'' of
                          Inl e \<Rightarrow> False
                        | Inr v \<Rightarrow> truthy v)),
              emit (Run cmd) s))"

section \<open>Encoder Invoker\<close>

text \<open>
  \<open>mkdir(parents=True, exist_ok=True)\<close>: \<open>None\<close> when it raises, which it does when
  the path or one of its ancestors exists and is not a directory.
\<close>

fun new_dirs :: "path \<Rightarrow> node" where
  "new_dirs [] = Dir []"
| "new_dirs (x # xs) = Dir [(x, new_dirs xs)]"

fun mkdir_parents :: "node \<Rightarrow> path \<Rightarrow> node option" where
  "mkdir_parents n [] = (case n of Dir es \<Rightarrow> Some n | _ \<Rightarrow> None)"
| "mkdir_parents n (x # xs) =
     (case n of
        Dir es \<Rightarrow>
          (case map_of es x of
             None \<Rightarrow> Some (Dir (es @ [(x, new_dirs xs)]))
           | Some c \<Rightarrow>
               (case mkdir_parents c xs of
                  None \<Rightarrow> None
                | Some c' \<Rightarrow> Some (Dir (map (\<lambda>e. if fst e = x then (x, c') else e) es))))
      | _ \<Rightarrow> None)"

text \<open>The argument vector \<open>run_ffmpeg\<close> builds, or the exception it raises on the way.\<close>

definition ffmpeg_cmd ::
  "path \<Rightarrow> path \<Rightarrow> bool \<Rightarrow> string \<Rightarrow> string \<Rightarrow> int \<Rightarrow> exc + string list" where
  "ffmpeg_cmd input_path output_path overwrite mode bitrate vbr_q =
     (let cmd = [''ffmpeg'', ''-hide_banner'', ''-nostats'', ''-i'', path_str input_path,
                 ''-vn'', ''-map'', ''0:a:0'', ''-map_metadata'', ''0''] in
      case (if mode = ''copy'' then Inr (cmd @ [''-c:a'', ''copy''])
            else
              let cmd = cmd @ [''-c:a'', ''libmp3lame''] in
              if mode = ''cbr'' then Inr (cmd @ [''-b:a'', bitrate])
              else if mode = ''vbr'' then Inr (cmd @ [''-q:a'', str_int vbr_q])
              else Inl (SystemExit (''Unknown mode: '' @ mode))) of
        Inl e \<Rightarrow> Inl e
      | Inr cmd \<Rightarrow>
          Inr (cmd @ [if overwrite then ''-y'' else ''-n''] @ [path_str output_path]))"

definition run_ffmpeg ::
  "env \<Rightarrow> path \<Rightarrow> path \<Rightarrow> bool \<Rightarrow> string \<Rightarrow> string \<Rightarrow> int \<Rightarrow> state
     \<Rightarrow> (exc + unit) \<times> state" where
  "run_ffmpeg env input_path output_path overwrite mode bitrate vbr_q s =
     (case ensure_tools env s of
        Inl e \<Rightarrow> (Inl e, s)
      | Inr _ \<Rightarrow>
          (case mkdir_parents (fs s) (parent output_path) of
             None \<Rightarrow> (Inl OSError, s)
           | Some fs1 \<Rightarrow>
               let s1 = emit (Mkdir (parent output_path)) (s\<lparr>fs := fs1\<rparr>) in
               (case ffmpeg_cmd input_path output_path overwrite mode bitrate vbr_q of
                  Inl e \<Rightarrow> (Inl e, s1)
                | Inr cmd \<Rightarrow>
                    (case ffmpeg env cmd s1 of
                       (RunRaised, fs2) \<Rightarrow> (Inl OSError, emit (Run cmd) (s1\<lparr>fs := fs2\<rparr>))
                     | (Returned returncode, fs2) \<Rightarrow>
                         if returncode \<noteq> 0 then
                           (Inl (SystemExit (''Conversion failed: '' @ path_str input_path)),
                            emit (Run cmd) (s1\<lparr>fs := fs2\<rparr>))
                         else (Inr (), emit (Run cmd) (s1\<lparr>fs := fs2\<rparr>))))))"

section \<open>Interactive Prompter\<close>

text \<open>
  \<open>input(prompt)\<close> shows the prompt and reads the next line of standard input; at end
  of file it raises \<open>EOFError\<close>. A user who never gives a valid answer keeps either
  loop running for ever: the functions are partial, \<open>None\<close> for a run that does not
  return.
\<close>

partial_function (option) ask_choice ::
  "env \<Rightarrow> string \<Rightarrow> (string \<times> string) list \<Rightarrow> string \<Rightarrow> state
     \<Rightarrow> ((exc + string) \<times> state) option" where
  "ask_choice env prompt choices default_key s =
     (let options = join ''/'' (map (\<lambda>kv. fst kv @ ''='' @ snd kv) choices) in
      case map_of choices default_key of
        None \<Rightarrow> Some (Inl KeyError, s)
      | Some default_label \<Rightarrow>
          let s1 = emit (Input (prompt @ '' ('' @ options @ '') [Default: '' @ default_key
                                 @ ''='' @ default_label @ '']: '')) s in
          (case stdin env (consumed s1) of
             None \<Rightarrow> Some (Inl EOFError, s1)
           | Some line \<Rightarrow>
               let raw = lower (strip line);
                   s2 = s1\<lparr>consumed := Suc (consumed s1)\<rparr> in
               if raw = [] then Some (Inr default_key, s2)
               else if raw \<in> set (map fst choices) then Some (Inr raw, s2)
               else ask_choice env prompt choices default_key
                      (emit (Print (''Please enter one of: '' @ join '', '' (map fst choices)
                                    @ '' (or press Enter for default).'')) s2)))"

partial_function (option) ask_yes_no ::
  "env \<Rightarrow> string \<Rightarrow> bool \<Rightarrow> state \<Rightarrow> ((exc + bool) \<times> state) option" where
  "ask_yes_no env prompt dflt s =
     (let d = (if dflt then ''y'' else ''n'');
          s1 = emit (Input (prompt @ '' (y/n) [Default: '' @ d @ '']: '')) s in
      case stdin env (consumed s1) of
        None \<Rightarrow> Some (Inl EOFError, s1)
      | Some line \<Rightarrow>
          let raw = lower (strip line);
              s2 = s1\<lparr>consumed := Suc (consumed s1)\<rparr> in
          if raw = [] then Some (Inr dflt, s2)
          else if raw \<in> {''y'', ''yes'', ''j'', ''ja''} then Some (Inr True, s2)
          else if raw \<in> {''n'', ''no'', ''nein''} then Some (Inr False, s2)
          else ask_yes_no env prompt dflt
                 (emit (Print ''Please enter y/n (or press Enter for default).'') s2))"

declare ask_choice.simps [code]

declare ask_yes_no.simps [code]

section \<open>Orchestrator\<close>

text \<open>The resolved flags, with the input and output paths expanded and resolved.\<close>

record args =
  args_input :: path
  args_out :: "path option"
  args_mode :: string
  args_bitrate :: string
  args_vbr_q :: int
  args_recursive :: bool
  args_overwrite :: bool
  args_no_prompt :: bool

text \<open>The mode of one file: \<open>file_mode\<close> in the loop of \<open>main\<close>.\<close>

definition file_mode_of :: "env \<Rightarrow> string \<Rightarrow> path \<Rightarrow> state \<Rightarrow> (exc + string) \<times> state" where
  "file_mode_of env mode f s =
     (if mode = ''auto'' then autodetect_mode env f s else (Inr mode, s))"

definition out_file_of :: "args \<Rightarrow> path \<Rightarrow> path" where
  "out_file_of a f =
     (let target_dir = (case args_out a of Some out_dir \<Rightarrow> out_dir | None \<Rightarrow> parent f)
      in target_dir @ [stem f @ ''.mp3''])"

text \<open>The three lines the loop prints about a file before it is transcoded.\<close>

definition skip_exists_msg :: "path \<Rightarrow> string" where
  "skip_exists_msg out_file = ''Skip (exists): '' @ path_str out_file"

definition converting_msg :: "path \<Rightarrow> path \<Rightarrow> string \<Rightarrow> string" where
  "converting_msg f out_file file_mode =
     ''Converting: '' @ path_str f @ '' -> '' @ path_str out_file
       @ '' ['' @ upper file_mode @ '']''"

definition no_audio_msg :: string where
  "no_audio_msg = ''  No audio stream found, skipping.''"

text \<open>The loop of \<open>main\<close> over the files.\<close>

fun main_loop :: "env \<Rightarrow> args \<Rightarrow> string \<Rightarrow> path list \<Rightarrow> state \<Rightarrow> (exc + unit) \<times> state" where
  "main_loop env a mode [] s = (Inr (), s)"
| "main_loop env a mode (f # files) s =
     (let out_file = out_file_of a f in
      if exists (fs s) out_file \<and> \<not> args_overwrite a then
        main_loop env a mode files (emit (Print (skip_exists_msg out_file)) s)
      else
        (case file_mode_of env mode f s of
           (Inl e, s1) \<Rightarrow> (Inl e, s1)
         | (Inr file_mode, s1) \<Rightarrow>
             let s2 = emit (Print (converting_msg f out_file file_mode)) s1 in
             (case has_audio_stream env f s2 of
                (Inl e, s3) \<Rightarrow> (Inl e, s3)
              | (Inr audio, s3) \<Rightarrow>
                  if \<not> audio then
                    main_loop env a mode files (emit (Print no_audio_msg) s3)
                  else
                    (case run_ffmpeg env f out_file (args_overwrite a) file_mode
                            (args_bitrate a) (args_vbr_q a) s3 of
                       (Inl e, s4) \<Rightarrow> (Inl e, s4)
                     | (Inr u, s4) \<Rightarrow> main_loop env a mode files (emit (Print ''OK'') s4)))))"

definition main :: "env \<Rightarrow> args \<Rightarrow> state \<Rightarrow> ((exc + unit) \<times> state) option" where
  "main env a s =
     (let in_path = args_input a in
      if \<not> exists (fs s) in_path then
        Some (Inl (SystemExit (''Path not found: '' @ path_str in_path)), s)
      else if args_mode a = ''vbr'' \<and> \<not> (0 \<le> args_vbr_q a \<and> args_vbr_q a \<le> 9) then
        Some (Inl (SystemExit ''--vbr-q must be between 0 and 9.''), s)
      else
        case (if is_dir (fs s) in_path \<and> \<not> args_recursive a \<and> \<not> args_no_prompt a
              then ask_yes_no env ''Scan subfolders recursively?'' True s
              else Some (Inr (args_recursive a), s)) of
          None \<Rightarrow> None
        | Some (Inl e, s1) \<Rightarrow> Some (Inl e, s1)
        | Some (Inr recursive, s1) \<Rightarrow>
            let files = candidate_files (fs s1) in_path recursive in
            if files = [] then
              Some (Inl (SystemExit (''No MP4/M4V/MOV files found in: '' @ path_str in_path)), s1)
            else
              (case (if args_mode a = ''auto'' then
                       (if args_no_prompt a then Some (Inr ''auto'', s1)
                        else
                          (case ask_choice env ''Encoding mode? (auto detects via ffprobe)''
                                  [(''a'', ''AUTO''), (''c'', ''CBR''), (''v'', ''VBR'')] ''a'' s1 of
                             None \<Rightarrow> None
                           | Some (Inl e, s2) \<Rightarrow> Some (Inl e, s2)
                           | Some (Inr choice, s2) \<Rightarrow>
                               (case map_of [(''a'', ''auto''), (''c'', ''cbr''), (''v'', ''vbr'')]
                                       choice of
                                  None \<Rightarrow> Some (Inl KeyError, s2)
                                | Some m \<Rightarrow> Some (Inr m, s2))))
                     else Some (Inr (args_mode a), s1)) of
                 None \<Rightarrow> None
               | Some (Inl e, s2) \<Rightarrow> Some (Inl e, s2)
               | Some (Inr mode, s2) \<Rightarrow> Some (main_loop env a mode files s2)))"

section \<open>The one-file script\<close>

text \<open>
  The repository also holds \<open>mp4_to_mp3.py\<close>, a script with the modes \<open>cbr\<close> and
  \<open>vbr\<close> only: it asks for the mode when the flag is absent, it does not probe, and it
  prints in German. Its functions are modelled under the prefix \<open>script_\<close>, on the same
  state and environment. The two letters outside ASCII are given by their UTF-8 bytes.
\<close>

definition uuml :: string where
  "uuml = [CHR 0xC3, CHR 0xBC]"

definition Uuml :: string where
  "Uuml = [CHR 0xC3, CHR 0x9C]"

partial_function (option) script_ask_choice ::
  "env \<Rightarrow> string \<Rightarrow> (string \<times> string) list \<Rightarrow> string \<Rightarrow> state
     \<Rightarrow> ((exc + string) \<times> state) option" where
  "script_ask_choice env prompt choices default_key s =
     (let options = join ''/'' (map (\<lambda>kv. fst kv @ ''='' @ snd kv) choices) in
      case map_of choices default_key of
        None \<Rightarrow> Some (Inl KeyError, s)
      | Some default_label \<Rightarrow>
          let s1 = emit (Input (prompt @ '' ('' @ options @ '') [Default: '' @ default_key
                                 @ ''='' @ default_label @ '']: '')) s in
          (case stdin env (consumed s1) of
             None \<Rightarrow> Some (Inl EOFError, s1)
           | Some line \<Rightarrow>
               let raw = lower (strip line);
                   s2 = s1\<lparr>consumed := Suc (consumed s1)\<rparr> in
               if raw = [] then Some (Inr default_key, s2)
               else if raw \<in> set (map fst choices) then Some (Inr raw, s2)
               else script_ask_choice env prompt choices default_key
                      (emit (Print (''Bitte eingeben: '' @ join '', '' (map fst choices)
                                    @ '' (oder Enter f'' @ uuml @ ''r Default).'')) s2)))"

partial_function (option) script_ask_yes_no ::
  "env \<Rightarrow> string \<Rightarrow> bool \<Rightarrow> state \<Rightarrow> ((exc + bool) \<times> state) option" where
  "script_ask_yes_no env prompt dflt s =
     (let d = (if dflt then ''y'' else ''n'');
          s1 = emit (Input (prompt @ '' (y/n) [Default: '' @ d @ '']: '')) s in
      case stdin env (consumed s1) of
        None \<Rightarrow> Some (Inl EOFError, s1)
      | Some line \<Rightarrow>
          let raw = lower (strip line);
              s2 = s1\<lparr>consumed := Suc (consumed s1)\<rparr> in
          if raw = [] then Some (Inr dflt, s2)
          else if raw \<in> {''y'', ''yes'', ''j'', ''ja''} then Some (Inr True, s2)
          else if raw \<in> {''n'', ''no'', ''nein''} then Some (Inr False, s2)
          else script_ask_yes_no env prompt dflt
                 (emit (Print (''Bitte y/n eingeben (oder Enter f'' @ uuml @ ''r Default).'')) s2))"

declare script_ask_choice.simps [code]

declare script_ask_yes_no.simps [code]

definition script_ensure_ffmpeg :: "env \<Rightarrow> state \<Rightarrow> exc + unit" where
  "script_ensure_ffmpeg env s =
     (if \<not> which env ''ffmpeg'' s
      then Inl (SystemExit ''ffmpeg nicht gefunden. Installiere es mit: brew install ffmpeg'')
      else Inr ())"

definition script_ffmpeg_cmd ::
  "path \<Rightarrow> path \<Rightarrow> bool \<Rightarrow> string \<Rightarrow> string \<Rightarrow> int \<Rightarrow> string list" where
  "script_ffmpeg_cmd input_path output_path overwrite mode bitrate vbr_q =
     (let cmd = [''ffmpeg'', ''-hide_banner'', ''-nostats'', ''-i'', path_str input_path,
                 ''-vn'', ''-c:a'', ''libmp3lame'', ''-map_metadata'', ''0''];
          cmd = (if mode = ''cbr'' then cmd @ [''-b:a'', bitrate]
                 else cmd @ [''-q:a'', str_int vbr_q])
      in cmd @ [if overwrite then ''-y'' else ''-n''] @ [path_str output_path])"

definition script_run_ffmpeg ::
  "env \<Rightarrow> path \<Rightarrow> path \<Rightarrow> bool \<Rightarrow> string \<Rightarrow> string \<Rightarrow> int \<Rightarrow> state
     \<Rightarrow> (exc + unit) \<times> state" where
  "script_run_ffmpeg env input_path output_path overwrite mode bitrate vbr_q s =
     (case script_ensure_ffmpeg env s of
        Inl e \<Rightarrow> (Inl e, s)
      | Inr _ \<Rightarrow>
          (case mkdir_parents (fs s) (parent output_path) of
             None \<Rightarrow> (Inl OSError, s)
           | Some fs1 \<Rightarrow>
               let s1 = emit (Mkdir (parent output_path)) (s\<lparr>fs := fs1\<rparr>);
                   cmd = script_ffmpeg_cmd input_path output_path overwrite mode bitrate vbr_q
               in
               (case ffmpeg env cmd s1 of
                  (RunRaised, fs2) \<Rightarrow> (Inl OSError, emit (Run cmd) (s1\<lparr>fs := fs2\<rparr>))
                | (Returned returncode, fs2) \<Rightarrow>
                    if returncode \<noteq> 0 then
                      (Inl (SystemExit (''Konvertierung fehlgeschlagen: '' @ path_str input_path)),
                       emit (Run cmd) (s1\<lparr>fs := fs2\<rparr>))
                    else (Inr (), emit (Run cmd) (s1\<lparr>fs := fs2\<rparr>)))))"

definition script_iter_inputs :: "node \<Rightarrow> path \<Rightarrow> bool \<Rightarrow> path list" where
  "script_iter_inputs tree in_path recursive =
     (if is_dir tree in_path then
        (if recursive then
           filter (\<lambda>p. lower (suffix p) \<in> VIDEO_EXTS) (rglob tree in_path)
         else
           filter (\<lambda>p. is_file tree p \<and> lower (suffix p) \<in> VIDEO_EXTS) (iterdir tree in_path))
      else [in_path])"

definition script_candidate_files :: "node \<Rightarrow> path \<Rightarrow> bool \<Rightarrow> path list" where
  "script_candidate_files tree in_path recursive =
     (let files = sort (script_iter_inputs tree in_path recursive)
      in filter (\<lambda>f. is_file tree f \<and> lower (suffix f) \<in> VIDEO_EXTS) files)"

record script_args =
  script_input :: path
  script_out :: "path option"
  script_overwrite :: bool
  script_mode :: "string option"
  script_bitrate :: string
  script_vbr_q :: int
  script_recursive :: bool

definition script_out_file_of :: "script_args \<Rightarrow> path \<Rightarrow> path" where
  "script_out_file_of a f =
     (let target_dir = (case script_out a of Some out_dir \<Rightarrow> out_dir | None \<Rightarrow> parent f)
      in target_dir @ [stem f @ ''.mp3''])"

fun script_main_loop ::
  "env \<Rightarrow> script_args \<Rightarrow> string \<Rightarrow> path list \<Rightarrow> state \<Rightarrow> (exc + unit) \<times> state" where
  "script_main_loop env a mode [] s = (Inr (), s)"
| "script_main_loop env a mode (f # files) s =
     (let out_file = script_out_file_of a f in
      if exists (fs s) out_file \<and> \<not> script_overwrite a then
        script_main_loop env a mode files
          (emit (Print (Uuml @ ''berspringe (existiert): '' @ path_str out_file)) s)
      else
        let s1 = emit (Print (''Konvertiere: '' @ path_str f @ '' -> '' @ path_str out_file
                              @ '' ['' @ upper mode @ '']'')) s
        in
        (case script_run_ffmpeg env f out_file (script_overwrite a) mode
                (script_bitrate a) (script_vbr_q a) s1 of
           (Inl e, s2) \<Rightarrow> (Inl e, s2)
         | (Inr u, s2) \<Rightarrow> script_main_loop env a mode files (emit (Print ''OK'') s2)))"

definition script_main :: "env \<Rightarrow> script_args \<Rightarrow> state \<Rightarrow> ((exc + unit) \<times> state) option" where
  "script_main env a s =
     (let in_path = script_input a in
      if \<not> exists (fs s) in_path then
        Some (Inl (SystemExit (''Pfad nicht gefunden: '' @ path_str in_path)), s)
      else
        case (case script_mode a of
                Some m \<Rightarrow> Some (Inr m, s)
              | None \<Rightarrow>
                  (case script_ask_choice env ''Willst du CBR oder VBR encoden?''
                          [(''c'', ''CBR (feste Bitrate)''), (''v'', ''VBR (variable Bitrate)'')]
                          ''v'' s of
                     None \<Rightarrow> None
                   | Some (Inl e, s1) \<Rightarrow> Some (Inl e, s1)
                   | Some (Inr choice, s1) \<Rightarrow>
                       Some (Inr (if choice = ''c'' then ''cbr'' else ''vbr''), s1))) of
          None \<Rightarrow> None
        | Some (Inl e, s1) \<Rightarrow> Some (Inl e, s1)
        | Some (Inr mode, s1) \<Rightarrow>
            (case (if is_dir (fs s1) in_path \<and> \<not> script_recursive a
                   then script_ask_yes_no env ''Soll ich Unterordner rekursiv durchsuchen?'' True s1
                   else Some (Inr (script_recursive a), s1)) of
               None \<Rightarrow> None
             | Some (Inl e, s2) \<Rightarrow> Some (Inl e, s2)
             | Some (Inr recursive, s2) \<Rightarrow>
                 if mode = ''vbr'' \<and> \<not> (0 \<le> script_vbr_q a \<and> script_vbr_q a \<le> 9) then
                   Some (Inl (SystemExit ''--vbr-q muss zwischen 0 und 9 liegen.''), s2)
                 else
                   let files = script_candidate_files (fs s2) in_path recursive in
                   if files = [] then
                     Some (Inl (SystemExit (''Keine MP4/M4V/MOV Dateien gefunden in: ''
                                            @ path_str in_path)), s2)
                   else Some (script_main_loop env a mode files s2)))"

section \<open>Observations on a run\<close>

text \<open>The transcoding commands among the events of a run.\<close>

fun encoder_runs :: "event list \<Rightarrow> string list list" where
  "encoder_runs [] = []"
| "encoder_runs (Run cmd # t) =
     (if take 1 cmd = [''ffmpeg''] then cmd # encoder_runs t else encoder_runs t)"
| "encoder_runs (e # t) = encoder_runs t"

text \<open>A directory lists each name once, at every depth.\<close>

fun wf_node :: "node \<Rightarrow> bool" where
  "wf_node (Dir es) = (distinct (map fst es) \<and> list_all (\<lambda>e. wf_node (snd e)) es)"
| "wf_node n = True"

section \<open>An example environment\<close>

text \<open>
  A directory \<open>/d\<close> with two videos, a text file and a subdirectory, a directory
  \<open>/e\<close> with two videos and a directory \<open>/m\<close> with a video that has been
  converted before. The prober finds
  AAC audio in \<open>a.mp4\<close>, MP3 audio in \<open>b.mov\<close> and no audio stream in \<open>c.M4V\<close>;
  it fails on every other file. The transcoder writes its last argument and exits with
  status 0, except on \<open>bad.mp4\<close>, where it exits with status 1.
\<close>

fun split_on :: "char \<Rightarrow> string \<Rightarrow> string list" where
  "split_on c [] = [[]]"
| "split_on c (x # xs) =
     (if x = c then [] # split_on c xs
      else (case split_on c xs of [] \<Rightarrow> [[x]] | y # ys \<Rightarrow> (x # y) # ys))"

definition path_of_str :: "string \<Rightarrow> path" where
  "path_of_str s = filter (\<lambda>x. x \<noteq> []) (split_on CHR ''/'' s)"

fun write_file :: "node \<Rightarrow> path \<Rightarrow> node" where
  "write_file n [] = File"
| "write_file n (x # xs) =
     (case n of
        Dir es \<Rightarrow>
          (case map_of es x of
             None \<Rightarrow> Dir (es @ [(x, write_file (Dir []) xs)])
           | Some c \<Rightarrow> Dir (map (\<lambda>e. if fst e = x then (x, write_file c xs) else e) es))
      | _ \<Rightarrow> n)"

definition example_fs :: node where
  "example_fs =
     Dir [(''d'', Dir [(''b.mov'', File), (''a.mp4'', File), (''notes.txt'', File),
                       (''sub'', Dir [(''c.M4V'', File)])]),
          (''e'', Dir [(''bad.mp4'', File), (''good.mp4'', File)]),
          (''m'', Dir [(''old.mp3'', File), (''old.mp4'', File)])]"

definition stream_reply :: "(string \<times> json) list \<Rightarrow> probe_reply" where
  "stream_reply kvs = Loaded (JObj [(''streams'', JArr [JObj kvs])])"

definition example_ffprobe :: "string list \<Rightarrow> state \<Rightarrow> probe_reply" where
  "example_ffprobe cmd s =
     (let file = last cmd in
      if file = ''/d/sub/c.M4V'' then Loaded (JObj [(''streams'', JArr [])])
      else if file \<notin> {''/d/a.mp4'', ''/d/b.mov'', ''/e/bad.mp4'', ''/e/good.mp4''}
      then CheckOutputRaised
      else if cmd ! 4 = ''a'' then stream_reply [(''index'', JInt 1)]
      else if file = ''/d/b.mov''
      then stream_reply [(''codec_name'', JStr ''mp3''), (''sample_rate'', JStr ''44100''),
                         (''channels'', JInt 2), (''bit_rate'', JStr ''128000'')]
      else stream_reply [(''codec_name'', JStr ''aac''), (''sample_rate'', JStr ''48000''),
                         (''channels'', JInt 2), (''bit_rate'', JStr ''317375'')])"

definition example_ffmpeg :: "string list \<Rightarrow> state \<Rightarrow> proc_exit \<times> node" where
  "example_ffmpeg cmd s =
     (if cmd ! 4 = ''/e/bad.mp4'' then (Returned 1, fs s)
      else (Returned 0, write_file (fs s) (path_of_str (last cmd))))"

text \<open>Decimal digits only: enough of \<open>int\<close> for the example.\<close>

definition example_int_of_str :: "string \<Rightarrow> int option" where
  "example_int_of_str s =
     (if s \<noteq> [] \<and> list_all (\<lambda>c. c \<in> set ''0123456789'') s
      then Some (foldl (\<lambda>a c. 10 * a + int (length (takeWhile (\<lambda>d. d \<noteq> c) ''0123456789''))) 0 s)
      else None)"

definition example_env :: env where
  "example_env =
     \<lparr>which = (\<lambda>cmd s. True), ffprobe = example_ffprobe, ffmpeg = example_ffmpeg,
      stdin = (\<lambda>n. None), int_of_str = example_int_of_str\<rparr>"

definition example_state :: state where
  "example_state = \<lparr>fs = example_fs, consumed = 0, trace = []\<rparr>"

definition example_args :: "path \<Rightarrow> string \<Rightarrow> int \<Rightarrow> args" where
  "example_args p m q =
     \<lparr>args_input = p, args_out = None, args_mode = m, args_bitrate = ''192k'',
      args_vbr_q = q, args_recursive = False, args_overwrite = False, args_no_prompt = True\<rparr>"

definition example_script_args :: "path \<Rightarrow> string \<Rightarrow> int \<Rightarrow> script_args" where
  "example_script_args p m q =
     \<lparr>script_input = p, script_out = None, script_overwrite = False, script_mode = Some m,
      script_bitrate = ''192k'', script_vbr_q = q, script_recursive = True\<rparr>"

section \<open>Effects of the parts of a run\<close>

lemma encoder_runs_append: "encoder_runs (xs @ ys) = encoder_runs xs @ encoder_runs ys"
  by (induction xs rule: encoder_runs.induct) auto

lemma ffprobe_audio_info_tools:
  assumes "ensure_tools env s = Inr ()"
  shows "ffprobe_audio_info env p s =
     (Inr (case ffprobe env (ffprobe_audio_info_cmd p) s of
             Loaded data \<Rightarrow> (case probe_info_of env data of Inl e \<Rightarrow> ProbeInfo_default | Inr info \<Rightarrow> info)
           | _ \<Rightarrow> ProbeInfo_default),
      emit (Run (ffprobe_audio_info_cmd p)) s)"
  using assms by (simp add: ffprobe_audio_info_def Let_def split: probe_reply.splits)

lemma ffprobe_cmd_not_encoder:
  "take (Suc 0) (ffprobe_audio_info_cmd p) \<noteq> [''ffmpeg'']"
  "take (Suc 0) (has_audio_stream_cmd p) \<noteq> [''ffmpeg'']"
  by (simp_all add: ffprobe_audio_info_cmd_def has_audio_stream_cmd_def)

lemma ffprobe_audio_info_effect:
  assumes "ffprobe_audio_info env p s = (r, s1)"
  shows "fs s1 = fs s \<and> consumed s1 = consumed s
         \<and> encoder_runs (trace s1) = encoder_runs (trace s)"
  using assms
  by (auto simp add: ffprobe_audio_info_def Let_def emit_def encoder_runs_append
        ffprobe_cmd_not_encoder split: sum.splits)

lemma autodetect_mode_effect:
  assumes "autodetect_mode env p s = (r, s1)"
  shows "fs s1 = fs s \<and> consumed s1 = consumed s
         \<and> encoder_runs (trace s1) = encoder_runs (trace s)"
proof -
  obtain r0 s0 where p0: "ffprobe_audio_info env p s = (r0, s0)"
    by (cases "ffprobe_audio_info env p s")
  with assms have "s1 = s0"
    by (auto simp add: autodetect_mode_def split: sum.splits if_splits)
  with ffprobe_audio_info_effect [OF p0] show ?thesis by simp
qed

lemma file_mode_of_effect:
  assumes "file_mode_of env mode f s = (r, s1)"
  shows "fs s1 = fs s \<and> consumed s1 = consumed s
         \<and> encoder_runs (trace s1) = encoder_runs (trace s)"
  using assms autodetect_mode_effect [of env f s r s1]
  by (auto simp add: file_mode_of_def split: if_splits)

lemma has_audio_stream_effect:
  assumes "has_audio_stream env p s = (r, s1)"
  shows "fs s1 = fs s \<and> consumed s1 = consumed s
         \<and> encoder_runs (trace s1) = encoder_runs (trace s)"
  using assms
  by (auto simp add: has_audio_stream_def Let_def emit_def encoder_runs_append
        ffprobe_cmd_not_encoder split: sum.splits)

lemma has_audio_stream_tools:
  assumes "ensure_tools env s = Inr ()"
  shows "has_audio_stream env p s =
     (Inr (case ffprobe env (has_audio_stream_cmd p) s of
             Loaded data \<Rightarrow> (case dict_get data ''streams'' of Inl e \<Rightarrow> False | Inr v \<Rightarrow> truthy v)
           | _ \<Rightarrow> False),
      emit (Run (has_audio_stream_cmd p)) s)"
  using assms by (simp add: has_audio_stream_def Let_def split: probe_reply.splits)

lemma autodetect_mode_info:
  assumes "ffprobe_audio_info env p s = (Inr info, s1)"
  shows "autodetect_mode env p s =
     (if \<not> truthy (codec_name info) then (Inr ''vbr'', s1)
      else case codec_name info of
             JStr c \<Rightarrow> (Inr (if lower c = ''mp3'' then ''copy'' else ''vbr''), s1)
           | _ \<Rightarrow> (Inl AttributeError, s1))"
  using assms
  by (cases "codec_name info") (auto simp add: autodetect_mode_def lower_def)

lemma autodetect_mode_result:
  assumes "autodetect_mode env p s = (Inr m, s1)"
  shows "m = ''copy'' \<or> m = ''vbr''"
  using assms
  by (auto simp add: autodetect_mode_def split: sum.splits if_splits prod.splits)

lemma main_loop_skip_exists:
  assumes "exists (fs s) (out_file_of a f)" and "\<not> args_overwrite a"
  shows "main_loop env a mode (f # files) s =
         main_loop env a mode files (emit (Print (skip_exists_msg (out_file_of a f))) s)"
  using assms by (simp add: Let_def)

lemma main_loop_no_audio:
  assumes "\<not> (exists (fs s) (out_file_of a f) \<and> \<not> args_overwrite a)"
    and "file_mode_of env mode f s = (Inr file_mode, s1)"
    and "has_audio_stream env f (emit (Print (converting_msg f (out_file_of a f) file_mode)) s1)
           = (Inr False, s3)"
  shows "main_loop env a mode (f # files) s =
         main_loop env a mode files (emit (Print no_audio_msg) s3)"
  using assms by (auto simp add: Let_def)

lemma main_loop_run_ffmpeg_raises:
  assumes "\<not> (exists (fs s) (out_file_of a f) \<and> \<not> args_overwrite a)"
    and "file_mode_of env mode f s = (Inr file_mode, s1)"
    and "has_audio_stream env f (emit (Print (converting_msg f (out_file_of a f) file_mode)) s1)
           = (Inr True, s3)"
    and "run_ffmpeg env f (out_file_of a f) (args_overwrite a) file_mode
           (args_bitrate a) (args_vbr_q a) s3 = (Inl e, s4)"
  shows "main_loop env a mode (f # files) s = (Inl e, s4)"
  using assms by (auto simp add: Let_def)

lemma run_ffmpeg_started:
  assumes "ensure_tools env s = Inr ()"
    and "mkdir_parents (fs s) (parent output_path) = Some fs1"
    and "ffmpeg_cmd input_path output_path overwrite mode bitrate vbr_q = Inr cmd"
    and "ffmpeg env cmd (emit (Mkdir (parent output_path)) (s\<lparr>fs := fs1\<rparr>)) = (x, fs2)"
  shows "run_ffmpeg env input_path output_path overwrite mode bitrate vbr_q s =
     ((case x of
         RunRaised \<Rightarrow> Inl OSError
       | Returned returncode \<Rightarrow>
           if returncode \<noteq> 0
           then Inl (SystemExit (''Conversion failed: '' @ path_str input_path))
           else Inr ()),
      emit (Run cmd) (emit (Mkdir (parent output_path)) (s\<lparr>fs := fs1\<rparr>)\<lparr>fs := fs2\<rparr>))"
  using assms by (simp add: run_ffmpeg_def Let_def split: proc_exit.splits)

lemma probe_info_of_no_streams:
  assumes "dict_get data ''streams'' = Inr v" and "\<not> truthy v"
  shows "probe_info_of env data = Inr ProbeInfo_default"
  using assms by (simp add: probe_info_of_def)

lemma example_tools: "ensure_tools example_env s = Inr ()"
  by (simp add: ensure_tools_def which_or_exit_def example_env_def)

section \<open>The Prober is advisory\<close>

text \<open>
  Claim C8. When both tools are found, \<open>ffprobe_audio_info\<close> always returns a Probe
  Result and runs the probing command once. The result has every field null when the
  probing process fails, when its output is not JSON, when the parsed output makes the body
  of the \<open>try\<close> raise, and when the output reports no audio stream. (When a tool is
  missing the process is never started: \<open>ensure_tools\<close> exits before the \<open>try\<close>.)
\<close>

theorem ffprobe_audio_info_advisory:
  assumes "ensure_tools env s = Inr ()"
  shows "\<exists>info. ffprobe_audio_info env p s = (Inr info, emit (Run (ffprobe_audio_info_cmd p)) s) \<and>
           ((ffprobe env (ffprobe_audio_info_cmd p) s = CheckOutputRaised
             \<or> ffprobe env (ffprobe_audio_info_cmd p) s = JsonLoadsRaised
             \<or> (\<exists>data e. ffprobe env (ffprobe_audio_info_cmd p) s = Loaded data
                    \<and> probe_info_of env data = Inl e)
             \<or> (\<exists>data v. ffprobe env (ffprobe_audio_info_cmd p) s = Loaded data
                    \<and> dict_get data ''streams'' = Inr v \<and> \<not> truthy v))
            \<longrightarrow> info = ProbeInfo_default)"
  using assms
  by (auto simp add: ffprobe_audio_info_tools probe_info_of_no_streams)

theorem ffprobe_audio_info_advisory_witness:
  "ensure_tools example_env example_state = Inr () \<and>
   ffprobe example_env (ffprobe_audio_info_cmd [''d'', ''notes.txt'']) example_state
     = CheckOutputRaised \<and>
   fst (ffprobe_audio_info example_env [''d'', ''notes.txt''] example_state)
     = Inr ProbeInfo_default"
proof -
  have tools: "ensure_tools example_env example_state = Inr ()"
    by (rule example_tools)
  have fail: "ffprobe example_env (ffprobe_audio_info_cmd [''d'', ''notes.txt'']) example_state
                = CheckOutputRaised"
    by (simp add: example_env_def example_ffprobe_def ffprobe_audio_info_cmd_def path_str_def)
  from ffprobe_audio_info_advisory [OF tools, of "[''d'', ''notes.txt'']"] fail tools
  show ?thesis by auto
qed

section \<open>Resolution of the mode\<close>

lemma example_probe_b:
  "ffprobe_audio_info example_env [''d'', ''b.mov''] example_state =
     (Inr \<lparr>codec_name = JStr ''mp3'', bit_rate = Some 128000, channels = Some 2,
           sample_rate = Some 44100\<rparr>,
      emit (Run (ffprobe_audio_info_cmd [''d'', ''b.mov''])) example_state)"
  by (simp add: ffprobe_audio_info_tools example_tools)
     (simp add: example_env_def example_ffprobe_def ffprobe_audio_info_cmd_def path_str_def
        stream_reply_def probe_info_of_def int_field_def example_int_of_str_def Let_def)

text \<open>
  Claim C3. The requested modes \<open>cbr\<close>, \<open>vbr\<close> and \<open>copy\<close> resolve to themselves
  and leave the state as it is: nothing is probed. For the requested mode \<open>auto\<close>, with
  the codec name of the Probe Result a string or null as \<open>ProbeInfo\<close> declares it, the
  mode is \<open>copy\<close> exactly when the codec name in lower case is \<open>mp3\<close> (the comparison
  the code makes) and \<open>vbr\<close> otherwise; a probing process that fails or prints no JSON
  gives \<open>vbr\<close>; and whatever the probe gives, \<open>auto\<close> resolves to \<open>copy\<close> or
  \<open>vbr\<close>, never to \<open>cbr\<close>.
\<close>

theorem mode_resolution:
  "(mode \<in> {''cbr'', ''vbr'', ''copy''} \<longrightarrow> file_mode_of env mode f s = (Inr mode, s)) \<and>
   (\<forall>info s1. ffprobe_audio_info env f s = (Inr info, s1)
        \<and> (codec_name info = JNull \<or> (\<exists>c. codec_name info = JStr c)) \<longrightarrow>
      file_mode_of env ''auto'' f s =
        (Inr (if \<exists>c. codec_name info = JStr c \<and> lower c = ''mp3'' then ''copy'' else ''vbr''), s1)) \<and>
   (ensure_tools env s = Inr ()
      \<and> ffprobe env (ffprobe_audio_info_cmd f) s \<in> {CheckOutputRaised, JsonLoadsRaised} \<longrightarrow>
      file_mode_of env ''auto'' f s = (Inr ''vbr'', emit (Run (ffprobe_audio_info_cmd f)) s)) \<and>
   (\<forall>m s1. file_mode_of env ''auto'' f s = (Inr m, s1) \<longrightarrow> m = ''copy'' \<or> m = ''vbr'')"
proof (intro conjI allI impI)
  assume "mode \<in> {''cbr'', ''vbr'', ''copy''}"
  then show "file_mode_of env mode f s = (Inr mode, s)"
    by (auto simp add: file_mode_of_def)
next
  fix info s1
  assume h: "ffprobe_audio_info env f s = (Inr info, s1)
               \<and> (codec_name info = JNull \<or> (\<exists>c. codec_name info = JStr c))"
  then show "file_mode_of env ''auto'' f s =
        (Inr (if \<exists>c. codec_name info = JStr c \<and> lower c = ''mp3'' then ''copy'' else ''vbr''), s1)"
    by (auto simp add: file_mode_of_def autodetect_mode_info lower_def)
next
  assume h: "ensure_tools env s = Inr ()
      \<and> ffprobe env (ffprobe_audio_info_cmd f) s \<in> {CheckOutputRaised, JsonLoadsRaised}"
  then have "ffprobe_audio_info env f s
               = (Inr ProbeInfo_default, emit (Run (ffprobe_audio_info_cmd f)) s)"
    by (auto simp add: ffprobe_audio_info_tools)
  then show "file_mode_of env ''auto'' f s = (Inr ''vbr'', emit (Run (ffprobe_audio_info_cmd f)) s)"
    by (simp add: file_mode_of_def autodetect_mode_info ProbeInfo_default_def)
next
  fix m s1
  assume "file_mode_of env ''auto'' f s = (Inr m, s1)"
  then show "m = ''copy'' \<or> m = ''vbr''"
    by (simp add: file_mode_of_def autodetect_mode_result)
qed

theorem mode_resolution_witness:
  "''cbr'' \<in> {''cbr'', ''vbr'', ''copy''} \<and>
   file_mode_of example_env ''cbr'' [''d'', ''b.mov''] example_state = (Inr ''cbr'', example_state) \<and>
   file_mode_of example_env ''auto'' [''d'', ''b.mov''] example_state =
     (Inr ''copy'', emit (Run (ffprobe_audio_info_cmd [''d'', ''b.mov''])) example_state)"
  using mode_resolution [of "''cbr''" example_env "[''d'', ''b.mov'']" example_state]
    example_probe_b
  by (simp add: lower_def lower_char_def)

section \<open>Arguments of the transcoder\<close>

lemma ffmpeg_cmd_copy:
  "ffmpeg_cmd input_path output_path overwrite ''copy'' bitrate vbr_q =
     Inr ([''ffmpeg'', ''-hide_banner'', ''-nostats'', ''-i'', path_str input_path,
           ''-vn'', ''-map'', ''0:a:0'', ''-map_metadata'', ''0'', ''-c:a'', ''copy'',
           if overwrite then ''-y'' else ''-n'', path_str output_path])"
  by (simp add: ffmpeg_cmd_def)

lemma ffmpeg_cmd_cbr:
  "ffmpeg_cmd input_path output_path overwrite ''cbr'' bitrate vbr_q =
     Inr ([''ffmpeg'', ''-hide_banner'', ''-nostats'', ''-i'', path_str input_path,
           ''-vn'', ''-map'', ''0:a:0'', ''-map_metadata'', ''0'', ''-c:a'', ''libmp3lame'',
           ''-b:a'', bitrate, if overwrite then ''-y'' else ''-n'', path_str output_path])"
  by (simp add: ffmpeg_cmd_def)

lemma ffmpeg_cmd_vbr:
  "ffmpeg_cmd input_path output_path overwrite ''vbr'' bitrate vbr_q =
     Inr ([''ffmpeg'', ''-hide_banner'', ''-nostats'', ''-i'', path_str input_path,
           ''-vn'', ''-map'', ''0:a:0'', ''-map_metadata'', ''0'', ''-c:a'', ''libmp3lame'',
           ''-q:a'', str_int vbr_q, if overwrite then ''-y'' else ''-n'', path_str output_path])"
  by (simp add: ffmpeg_cmd_def)

lemma ffmpeg_cmd_unknown:
  assumes "mode \<noteq> ''copy''" and "mode \<noteq> ''cbr''" and "mode \<noteq> ''vbr''"
  shows "ffmpeg_cmd input_path output_path overwrite mode bitrate vbr_q =
           Inl (SystemExit (''Unknown mode: '' @ mode))"
  using assms by (simp add: ffmpeg_cmd_def)

lemma run_ffmpeg_trace:
  assumes "ensure_tools env s = Inr ()"
    and "mkdir_parents (fs s) (parent output_path) = Some fs1"
  shows "trace (snd (run_ffmpeg env input_path output_path overwrite mode bitrate vbr_q s)) =
           trace s @ Mkdir (parent output_path) #
             (case ffmpeg_cmd input_path output_path overwrite mode bitrate vbr_q of
                Inl e \<Rightarrow> [] | Inr cmd \<Rightarrow> [Run cmd])"
proof (cases "ffmpeg_cmd input_path output_path overwrite mode bitrate vbr_q")
  case (Inl e)
  with assms show ?thesis by (simp add: run_ffmpeg_def Let_def emit_def)
next
  case (Inr cmd)
  obtain x fs2 where
    "ffmpeg env cmd (emit (Mkdir (parent output_path)) (s\<lparr>fs := fs1\<rparr>)) = (x, fs2)"
    by (cases "ffmpeg env cmd (emit (Mkdir (parent output_path)) (s\<lparr>fs := fs1\<rparr>))")
  from run_ffmpeg_started [OF assms Inr this] Inr show ?thesis
    by (simp add: emit_def)
qed

lemma run_ffmpeg_cmd_raises:
  assumes "ensure_tools env s = Inr ()"
    and "mkdir_parents (fs s) (parent output_path) = Some fs1"
    and "ffmpeg_cmd input_path output_path overwrite mode bitrate vbr_q = Inl e"
  shows "fst (run_ffmpeg env input_path output_path overwrite mode bitrate vbr_q s) = Inl e"
  using assms by (simp add: run_ffmpeg_def Let_def)

text \<open>
  Claim C4. Once the tools are found and the destination directory is made,
  \<open>run_ffmpeg\<close> runs exactly one command, chosen by the mode: with \<open>copy\<close> the
  audio codec is \<open>copy\<close> (the stream is not encoded again); with \<open>cbr\<close> it is
  \<open>libmp3lame\<close> with \<open>-b:a\<close> and the bitrate string; with \<open>vbr\<close> it is
  \<open>libmp3lame\<close> with \<open>-q:a\<close> and the quality level. With any other mode no
  command is run and the call exits with \<open>Unknown mode\<close>. Every command carries
  \<open>-y\<close> when overwriting is allowed and \<open>-n\<close> when it is not.
\<close>

theorem run_ffmpeg_arguments:
  assumes "ensure_tools env s = Inr ()"
    and "mkdir_parents (fs s) (parent output_path) = Some fs1"
  shows "trace (snd (run_ffmpeg env input_path output_path overwrite mode bitrate vbr_q s)) =
     trace s @ Mkdir (parent output_path) #
       (if mode = ''copy'' then
          [Run [''ffmpeg'', ''-hide_banner'', ''-nostats'', ''-i'', path_str input_path,
                ''-vn'', ''-map'', ''0:a:0'', ''-map_metadata'', ''0'', ''-c:a'', ''copy'',
                if overwrite then ''-y'' else ''-n'', path_str output_path]]
        else if mode = ''cbr'' then
          [Run [''ffmpeg'', ''-hide_banner'', ''-nostats'', ''-i'', path_str input_path,
                ''-vn'', ''-map'', ''0:a:0'', ''-map_metadata'', ''0'', ''-c:a'', ''libmp3lame'',
                ''-b:a'', bitrate, if overwrite then ''-y'' else ''-n'', path_str output_path]]
        else if mode = ''vbr'' then
          [Run [''ffmpeg'', ''-hide_banner'', ''-nostats'', ''-i'', path_str input_path,
                ''-vn'', ''-map'', ''0:a:0'', ''-map_metadata'', ''0'', ''-c:a'', ''libmp3lame'',
                ''-q:a'', str_int vbr_q, if overwrite then ''-y'' else ''-n'',
                path_str output_path]]
        else [])
     \<and> (mode \<notin> {''copy'', ''cbr'', ''vbr''} \<longrightarrow>
          fst (run_ffmpeg env input_path output_path overwrite mode bitrate vbr_q s)
            = Inl (SystemExit (''Unknown mode: '' @ mode)))"
proof -
  consider (copy) "mode = ''copy''" | (cbr) "mode = ''cbr''" | (vbr) "mode = ''vbr''"
    | (other) "mode \<noteq> ''copy''" "mode \<noteq> ''cbr''" "mode \<noteq> ''vbr''"
    by blast
  then show ?thesis
  proof cases
    case copy
    then show ?thesis
      by (simp only: run_ffmpeg_trace [OF assms] ffmpeg_cmd_copy) simp
  next
    case cbr
    then show ?thesis
      by (simp only: run_ffmpeg_trace [OF assms] ffmpeg_cmd_cbr) simp
  next
    case vbr
    then show ?thesis
      by (simp only: run_ffmpeg_trace [OF assms] ffmpeg_cmd_vbr) simp
  next
    case other
    from ffmpeg_cmd_unknown [OF other] have
      u: "ffmpeg_cmd input_path output_path overwrite mode bitrate vbr_q
            = Inl (SystemExit (''Unknown mode: '' @ mode))" .
    from other show ?thesis
      by (simp add: run_ffmpeg_trace [OF assms] u run_ffmpeg_cmd_raises [OF assms u])
  qed
qed

theorem run_ffmpeg_arguments_witness:
  "ensure_tools example_env example_state = Inr () \<and>
   mkdir_parents (fs example_state) (parent [''d'', ''a.mp3'']) = Some example_fs \<and>
   trace (snd (run_ffmpeg example_env [''d'', ''a.mp4''] [''d'', ''a.mp3''] False ''vbr''
                 ''192k'' 2 example_state)) =
     [Mkdir [''d''],
      Run [''ffmpeg'', ''-hide_banner'', ''-nostats'', ''-i'', ''/d/a.mp4'', ''-vn'', ''-map'',
           ''0:a:0'', ''-map_metadata'', ''0'', ''-c:a'', ''libmp3lame'', ''-q:a'', ''2'', ''-n'',
           ''/d/a.mp3'']]"
proof -
  have m: "mkdir_parents (fs example_state) (parent [''d'', ''a.mp3'']) = Some example_fs"
    by (simp add: example_state_def parent_def example_fs_def)
  have q: "str_int 2 = ''2''"
    by (simp add: str_int_def)
  from run_ffmpeg_arguments [OF example_tools m, where input_path = "[''d'', ''a.mp4'']"
      and overwrite = False and mode = "''vbr''" and bitrate = "''192k''" and vbr_q = 2] m q
  show ?thesis
    by (simp add: example_tools path_str_def parent_def example_state_def)
qed

section \<open>Orchestrator: one file of the loop\<close>

lemma messages_differ: "no_audio_msg \<noteq> skip_exists_msg out_file"
  by (simp add: no_audio_msg_def skip_exists_msg_def)

text \<open>
  Claim C6. When the destination of a file exists and overwriting is not requested, the
  loop prints the line \<open>Skip (exists)\<close> for it and goes on with the next file, in a
  state that differs only by that line: no command has been run and the file system is
  as it was.
\<close>

theorem existing_destination_skipped:
  assumes "exists (fs s) (out_file_of a f)" and "\<not> args_overwrite a"
  shows "main_loop env a mode (f # files) s =
           main_loop env a mode files
             (s\<lparr>trace := trace s @ [Print (skip_exists_msg (out_file_of a f))]\<rparr>)"
  using main_loop_skip_exists [OF assms] by (simp add: emit_def)

text \<open>
  Claim C7. When the audio check of a file answers that there is no audio stream, the
  loop prints the line \<open>No audio stream found, skipping.\<close>, which is not the line of
  an existing destination, and goes on with the next file. Up to there no transcoding
  command has been run for the file and the file system is as it was, whatever the mode
  resolved for the file.
\<close>

theorem no_audio_stream_skipped:
  assumes "\<not> (exists (fs s) (out_file_of a f) \<and> \<not> args_overwrite a)"
    and "file_mode_of env mode f s = (Inr file_mode, s1)"
    and "has_audio_stream env f (emit (Print (converting_msg f (out_file_of a f) file_mode)) s1)
           = (Inr False, s3)"
  shows "main_loop env a mode (f # files) s =
           main_loop env a mode files (s3\<lparr>trace := trace s3 @ [Print no_audio_msg]\<rparr>)
         \<and> encoder_runs (trace s3 @ [Print no_audio_msg]) = encoder_runs (trace s)
         \<and> fs s3 = fs s
         \<and> no_audio_msg \<noteq> skip_exists_msg (out_file_of a f)"
proof -
  have "encoder_runs (trace s1) = encoder_runs (trace s)" and "fs s1 = fs s"
    using file_mode_of_effect [OF assms(2)] by simp_all
  moreover have "encoder_runs (trace s3) = encoder_runs (trace s1)" and "fs s3 = fs s1"
    using has_audio_stream_effect [OF assms(3)]
    by (simp_all add: emit_def encoder_runs_append)
  ultimately show ?thesis
    using main_loop_no_audio [OF assms]
    by (simp add: emit_def encoder_runs_append messages_differ)
qed

text \<open>
  Claim C10. In the loop, when the tools are found and the audio check's probing process
  fails, prints no JSON, prints JSON that is not an object or reports no stream,
  \<open>has_audio_stream\<close> answers \<open>False\<close>: the file is skipped with the line for a
  missing audio stream, it is not transcoded, and the run goes on with the next file.
\<close>

theorem audio_probe_failure_skips:
  assumes "\<not> (exists (fs s) (out_file_of a f) \<and> \<not> args_overwrite a)"
    and "file_mode_of env mode f s = (Inr file_mode, s1)"
    and "ensure_tools env (emit (Print (converting_msg f (out_file_of a f) file_mode)) s1) = Inr ()"
    and "ffprobe env (has_audio_stream_cmd f)
           (emit (Print (converting_msg f (out_file_of a f) file_mode)) s1) = CheckOutputRaised
         \<or> ffprobe env (has_audio_stream_cmd f)
           (emit (Print (converting_msg f (out_file_of a f) file_mode)) s1) = JsonLoadsRaised
         \<or> (\<exists>data e. ffprobe env (has_audio_stream_cmd f)
                (emit (Print (converting_msg f (out_file_of a f) file_mode)) s1) = Loaded data
              \<and> dict_get data ''streams'' = Inl e)
         \<or> (\<exists>data v. ffprobe env (has_audio_stream_cmd f)
                (emit (Print (converting_msg f (out_file_of a f) file_mode)) s1) = Loaded data
              \<and> dict_get data ''streams'' = Inr v \<and> \<not> truthy v)"
  shows "has_audio_stream env f (emit (Print (converting_msg f (out_file_of a f) file_mode)) s1)
           = (Inr False,
              emit (Run (has_audio_stream_cmd f))
                (emit (Print (converting_msg f (out_file_of a f) file_mode)) s1))
         \<and> main_loop env a mode (f # files) s =
             main_loop env a mode files
               (emit (Print no_audio_msg)
                  (emit (Run (has_audio_stream_cmd f))
                     (emit (Print (converting_msg f (out_file_of a f) file_mode)) s1)))"
proof -
  let ?s2 = "emit (Print (converting_msg f (out_file_of a f) file_mode)) s1"
  have h: "has_audio_stream env f ?s2 = (Inr False, emit (Run (has_audio_stream_cmd f)) ?s2)"
    using assms(4) by (auto simp add: has_audio_stream_tools [OF assms(3)])
  from h main_loop_no_audio [OF assms(1) assms(2) h] show ?thesis by simp
qed

text \<open>
  Claim C2, as the code has it. When the transcoding process of a file exits with a
  non-zero status, the loop ends there with \<open>Conversion failed\<close> and the name of the
  file. The result does not depend on the files that follow: none of them is looked at.
\<close>

theorem conversion_failure_ends_run:
  assumes "\<not> (exists (fs s) (out_file_of a f) \<and> \<not> args_overwrite a)"
    and "file_mode_of env mode f s = (Inr file_mode, s1)"
    and "has_audio_stream env f (emit (Print (converting_msg f (out_file_of a f) file_mode)) s1)
           = (Inr True, s3)"
    and "ensure_tools env s3 = Inr ()"
    and "mkdir_parents (fs s3) (parent (out_file_of a f)) = Some fs1"
    and "ffmpeg_cmd f (out_file_of a f) (args_overwrite a) file_mode (args_bitrate a)
           (args_vbr_q a) = Inr cmd"
    and "ffmpeg env cmd (emit (Mkdir (parent (out_file_of a f))) (s3\<lparr>fs := fs1\<rparr>))
           = (Returned returncode, fs2)"
    and "returncode \<noteq> 0"
  shows "main_loop env a mode (f # files) s =
           (Inl (SystemExit (''Conversion failed: '' @ path_str f)),
            emit (Run cmd) (emit (Mkdir (parent (out_file_of a f))) (s3\<lparr>fs := fs1\<rparr>)\<lparr>fs := fs2\<rparr>))"
proof -
  from run_ffmpeg_started [OF assms(4) assms(5) assms(6) assms(7)] assms(8)
  have "run_ffmpeg env f (out_file_of a f) (args_overwrite a) file_mode (args_bitrate a)
          (args_vbr_q a) s3 =
        (Inl (SystemExit (''Conversion failed: '' @ path_str f)),
         emit (Run cmd) (emit (Mkdir (parent (out_file_of a f))) (s3\<lparr>fs := fs1\<rparr>)\<lparr>fs := fs2\<rparr>))"
    by simp
  from main_loop_run_ffmpeg_raises [OF assms(1) assms(2) assms(3) this] show ?thesis .
qed

section \<open>Orchestrator: the whole run\<close>

text \<open>
  Claim C1, as the code has it. With the requested mode \<open>vbr\<close> and \<open>--vbr-q\<close>
  outside 0..9, \<open>main\<close> exits with a message and leaves the state as it found it: no
  prompt, no scan, no command. When the input path exists the message is the one about
  \<open>--vbr-q\<close>.
\<close>

theorem vbr_q_out_of_range_fatal:
  assumes "args_mode a = ''vbr''" and "args_vbr_q a < 0 \<or> 9 < args_vbr_q a"
  shows "\<exists>msg. msg \<noteq> [] \<and> main env a s = Some (Inl (SystemExit msg), s)
           \<and> (exists (fs s) (args_input a) \<longrightarrow> msg = ''--vbr-q must be between 0 and 9.'')"
  using assms by (auto simp add: main_def Let_def)

text \<open>
  Claim C9. For an input path that exists and is not a directory, \<open>iter_inputs\<close> gives
  that path alone, whatever its extension; the filter of \<open>main\<close> then keeps it only if
  it is a regular file with a recognised extension. When the extension is not recognised
  and the flags have passed validation, \<open>main\<close> exits with the message that no files
  were found in that path, before any prompt or command.
\<close>

theorem single_file_input:
  assumes "exists (fs s) p" and "\<not> is_dir (fs s) p"
  shows "iter_inputs (fs s) p recursive = [p]
         \<and> candidate_files (fs s) p recursive =
             (if is_file (fs s) p \<and> lower (suffix p) \<in> VIDEO_EXTS then [p] else [])
         \<and> (args_input a = p \<and> lower (suffix p) \<notin> VIDEO_EXTS
              \<and> \<not> (args_mode a = ''vbr'' \<and> \<not> (0 \<le> args_vbr_q a \<and> args_vbr_q a \<le> 9)) \<longrightarrow>
            main env a s =
              Some (Inl (SystemExit (''No MP4/M4V/MOV files found in: '' @ path_str p)), s))"
proof -
  have i: "iter_inputs (fs s) p recursive = [p]" for recursive
    using assms(2) by (simp add: iter_inputs_def)
  have c: "candidate_files (fs s) p recursive =
             (if is_file (fs s) p \<and> lower (suffix p) \<in> VIDEO_EXTS then [p] else [])"
    for recursive
    by (simp add: candidate_files_def i)
  have "main env a s =
          Some (Inl (SystemExit (''No MP4/M4V/MOV files found in: '' @ path_str p)), s)"
    if "args_input a = p" and "lower (suffix p) \<notin> VIDEO_EXTS"
      and "\<not> (args_mode a = ''vbr'' \<and> \<not> (0 \<le> args_vbr_q a \<and> args_vbr_q a \<le> 9))"
    using that assms by (simp add: main_def Let_def c)
  with i c show ?thesis by blast
qed

section \<open>Two runs of the example\<close>

text \<open>
  A run over \<open>/e\<close> in mode \<open>vbr\<close>: the transcoder fails on the first file, the run
  ends with its error and the second file is never transcoded.
\<close>

theorem conversion_failure_counterexample:
  "candidate_files (fs example_state) [''e''] False = [[''e'', ''bad.mp4''], [''e'', ''good.mp4'']] \<and>
   map_option fst (main example_env (example_args [''e''] ''vbr'' 2) example_state)
     = Some (Inl (SystemExit ''Conversion failed: /e/bad.mp4'')) \<and>
   map_option (encoder_runs \<circ> trace \<circ> snd)
       (main example_env (example_args [''e''] ''vbr'' 2) example_state)
     = Some [[''ffmpeg'', ''-hide_banner'', ''-nostats'', ''-i'', ''/e/bad.mp4'', ''-vn'',
              ''-map'', ''0:a:0'', ''-map_metadata'', ''0'', ''-c:a'', ''libmp3lame'', ''-q:a'',
              ''2'', ''-n'', ''/e/bad.mp3'']]"
  by code_simp

text \<open>
  A run over \<open>/d\<close> in mode \<open>cbr\<close> with \<open>--vbr-q 42\<close>: the value is not
  looked at, both files are transcoded and the run ends normally.
\<close>

theorem vbr_q_unchecked_counterexample:
  "args_vbr_q (example_args [''d''] ''cbr'' 42) = 42 \<and>
   map_option fst (main example_env (example_args [''d''] ''cbr'' 42) example_state)
     = Some (Inr ()) \<and>
   map_option (encoder_runs \<circ> trace \<circ> snd)
       (main example_env (example_args [''d''] ''cbr'' 42) example_state)
     = Some [[''ffmpeg'', ''-hide_banner'', ''-nostats'', ''-i'', ''/d/a.mp4'', ''-vn'',
              ''-map'', ''0:a:0'', ''-map_metadata'', ''0'', ''-c:a'', ''libmp3lame'', ''-b:a'',
              ''192k'', ''-n'', ''/d/a.mp3''],
             [''ffmpeg'', ''-hide_banner'', ''-nostats'', ''-i'', ''/d/b.mov'', ''-vn'',
              ''-map'', ''0:a:0'', ''-map_metadata'', ''0'', ''-c:a'', ''libmp3lame'', ''-b:a'',
              ''192k'', ''-n'', ''/d/b.mp3'']]"
  by code_simp

section \<open>The theorems on the example\<close>

lemma example_out_file:
  "out_file_of (example_args p m q) [''m'', ''old.mp4''] = [''m'', ''old.mp3'']"
  "out_file_of (example_args p m q) [''d'', ''sub'', ''c.M4V''] = [''d'', ''sub'', ''c.mp3'']"
  "out_file_of (example_args p m q) [''d'', ''notes.txt''] = [''d'', ''notes.mp3'']"
  "out_file_of (example_args p m q) [''e'', ''bad.mp4''] = [''e'', ''bad.mp3'']"
  by (simp_all add: out_file_of_def example_args_def parent_def stem_def name_def)

lemma example_exists:
  "exists (fs example_state) [''m'', ''old.mp3'']"
  "\<not> exists (fs example_state) [''d'', ''sub'', ''c.mp3'']"
  "\<not> exists (fs example_state) [''d'', ''notes.mp3'']"
  "\<not> exists (fs example_state) [''e'', ''bad.mp3'']"
  "exists (fs example_state) [''d'', ''notes.txt'']"
  "\<not> is_dir (fs example_state) [''d'', ''notes.txt'']"
  by (simp_all add: exists_def is_dir_def example_state_def example_fs_def)

theorem existing_destination_skipped_witness:
  "main_loop example_env (example_args [''m''] ''vbr'' 2) ''vbr'' [[''m'', ''old.mp4'']] example_state
     = (Inr (), example_state\<lparr>trace := [Print ''Skip (exists): /m/old.mp3'']\<rparr>)"
proof -
  have e: "exists (fs example_state) (out_file_of (example_args [''m''] ''vbr'' 2) [''m'', ''old.mp4''])"
    by (simp add: example_out_file example_exists)
  have o: "\<not> args_overwrite (example_args [''m''] ''vbr'' 2)"
    by (simp add: example_args_def)
  from existing_destination_skipped [OF e o, of example_env "''vbr''" "[]"]
  show ?thesis
    by (simp add: example_out_file skip_exists_msg_def path_str_def)
       (simp add: example_state_def)
qed

lemma example_mode_c:
  "file_mode_of example_env ''auto'' [''d'', ''sub'', ''c.M4V''] example_state =
     (Inr ''vbr'', emit (Run (ffprobe_audio_info_cmd [''d'', ''sub'', ''c.M4V''])) example_state)"
  by (simp add: file_mode_of_def autodetect_mode_def ffprobe_audio_info_tools example_tools)
     (simp add: example_env_def example_ffprobe_def ffprobe_audio_info_cmd_def path_str_def
        probe_info_of_def ProbeInfo_default_def)

lemma example_audio_c:
  "has_audio_stream example_env [''d'', ''sub'', ''c.M4V''] s
     = (Inr False, emit (Run (has_audio_stream_cmd [''d'', ''sub'', ''c.M4V''])) s)"
  by (simp add: has_audio_stream_tools example_tools)
     (simp add: example_env_def example_ffprobe_def has_audio_stream_cmd_def path_str_def)

theorem no_audio_stream_skipped_witness:
  "main_loop example_env (example_args [''d''] ''auto'' 2) ''auto'' [[''d'', ''sub'', ''c.M4V'']]
     example_state
     = (Inr (),
        example_state\<lparr>trace :=
          [Run (ffprobe_audio_info_cmd [''d'', ''sub'', ''c.M4V'']),
           Print ''Converting: /d/sub/c.M4V -> /d/sub/c.mp3 [VBR]'',
           Run (has_audio_stream_cmd [''d'', ''sub'', ''c.M4V'']),
           Print ''  No audio stream found, skipping.'']\<rparr>)"
proof -
  have 1: "\<not> (exists (fs example_state)
                (out_file_of (example_args [''d''] ''auto'' 2) [''d'', ''sub'', ''c.M4V''])
             \<and> \<not> args_overwrite (example_args [''d''] ''auto'' 2))"
    by (simp add: example_out_file example_exists)
  from no_audio_stream_skipped [OF 1 example_mode_c example_audio_c, of "[]"]
  show ?thesis
    by (simp add: example_out_file converting_msg_def no_audio_msg_def path_str_def upper_def
          upper_char_def emit_def)
       (simp add: example_state_def)
qed

lemma example_mode_explicit:
  "file_mode_of example_env ''vbr'' f s = (Inr ''vbr'', s)"
  by (simp add: file_mode_of_def)

theorem audio_probe_failure_skips_witness:
  "main_loop example_env (example_args [''d''] ''vbr'' 2) ''vbr'' [[''d'', ''notes.txt'']]
     example_state
     = (Inr (),
        example_state\<lparr>trace :=
          [Print ''Converting: /d/notes.txt -> /d/notes.mp3 [VBR]'',
           Run (has_audio_stream_cmd [''d'', ''notes.txt'']),
           Print ''  No audio stream found, skipping.'']\<rparr>)"
proof -
  have 1: "\<not> (exists (fs example_state)
                (out_file_of (example_args [''d''] ''vbr'' 2) [''d'', ''notes.txt''])
             \<and> \<not> args_overwrite (example_args [''d''] ''vbr'' 2))"
    by (simp add: example_out_file example_exists)
  have 4: "ffprobe example_env (has_audio_stream_cmd [''d'', ''notes.txt''])
             (emit (Print (converting_msg [''d'', ''notes.txt'']
                (out_file_of (example_args [''d''] ''vbr'' 2) [''d'', ''notes.txt'']) ''vbr''))
                example_state) = CheckOutputRaised
         \<or> ffprobe example_env (has_audio_stream_cmd [''d'', ''notes.txt''])
             (emit (Print (converting_msg [''d'', ''notes.txt'']
                (out_file_of (example_args [''d''] ''vbr'' 2) [''d'', ''notes.txt'']) ''vbr''))
                example_state) = JsonLoadsRaised
         \<or> (\<exists>data e. ffprobe example_env (has_audio_stream_cmd [''d'', ''notes.txt''])
             (emit (Print (converting_msg [''d'', ''notes.txt'']
                (out_file_of (example_args [''d''] ''vbr'' 2) [''d'', ''notes.txt'']) ''vbr''))
                example_state) = Loaded data \<and> dict_get data ''streams'' = Inl e)
         \<or> (\<exists>data v. ffprobe example_env (has_audio_stream_cmd [''d'', ''notes.txt''])
             (emit (Print (converting_msg [''d'', ''notes.txt'']
                (out_file_of (example_args [''d''] ''vbr'' 2) [''d'', ''notes.txt'']) ''vbr''))
                example_state) = Loaded data \<and> dict_get data ''streams'' = Inr v
              \<and> \<not> truthy v)"
    by (simp add: example_env_def example_ffprobe_def has_audio_stream_cmd_def path_str_def)
  from audio_probe_failure_skips [OF 1 example_mode_explicit example_tools 4, of "[]"]
  show ?thesis
    by (simp add: example_out_file converting_msg_def no_audio_msg_def path_str_def upper_def
          upper_char_def emit_def)
       (simp add: example_state_def)
qed

theorem conversion_failure_ends_run_witness:
  "main_loop example_env (example_args [''e''] ''vbr'' 2) ''vbr''
     [[''e'', ''bad.mp4''], [''e'', ''good.mp4'']] example_state
     = (Inl (SystemExit ''Conversion failed: /e/bad.mp4''),
        example_state\<lparr>trace :=
          [Print ''Converting: /e/bad.mp4 -> /e/bad.mp3 [VBR]'',
           Run (has_audio_stream_cmd [''e'', ''bad.mp4'']),
           Mkdir [''e''],
           Run [''ffmpeg'', ''-hide_banner'', ''-nostats'', ''-i'', ''/e/bad.mp4'', ''-vn'',
                ''-map'', ''0:a:0'', ''-map_metadata'', ''0'', ''-c:a'', ''libmp3lame'', ''-q:a'',
                ''2'', ''-n'', ''/e/bad.mp3'']]\<rparr>)"
proof -
  let ?a = "example_args [''e''] ''vbr'' 2"
  let ?s2 = "emit (Print (converting_msg [''e'', ''bad.mp4'']
               (out_file_of ?a [''e'', ''bad.mp4'']) ''vbr'')) example_state"
  let ?s3 = "emit (Run (has_audio_stream_cmd [''e'', ''bad.mp4''])) ?s2"
  let ?cmd = "[''ffmpeg'', ''-hide_banner'', ''-nostats'', ''-i'', ''/e/bad.mp4'', ''-vn'',
               ''-map'', ''0:a:0'', ''-map_metadata'', ''0'', ''-c:a'', ''libmp3lame'', ''-q:a'',
               ''2'', ''-n'', ''/e/bad.mp3'']"
  have 1: "\<not> (exists (fs example_state) (out_file_of ?a [''e'', ''bad.mp4''])
             \<and> \<not> args_overwrite ?a)"
    by (simp add: example_out_file example_exists)
  have 3: "has_audio_stream example_env [''e'', ''bad.mp4''] ?s2 = (Inr True, ?s3)"
    by (simp add: has_audio_stream_tools example_tools)
       (simp add: example_env_def example_ffprobe_def has_audio_stream_cmd_def path_str_def
          stream_reply_def)
  have 5: "mkdir_parents (fs ?s3) (parent (out_file_of ?a [''e'', ''bad.mp4''])) = Some example_fs"
    by (simp add: example_out_file parent_def emit_def example_state_def example_fs_def)
  have 6: "ffmpeg_cmd [''e'', ''bad.mp4''] (out_file_of ?a [''e'', ''bad.mp4''])
             (args_overwrite ?a) ''vbr'' (args_bitrate ?a) (args_vbr_q ?a) = Inr ?cmd"
    by (simp add: ffmpeg_cmd_vbr example_out_file path_str_def str_int_def)
       (simp add: example_args_def)
  have 7: "ffmpeg example_env ?cmd
             (emit (Mkdir (parent (out_file_of ?a [''e'', ''bad.mp4'']))) (?s3\<lparr>fs := example_fs\<rparr>))
           = (Returned 1, example_fs)"
    by (simp add: example_env_def example_ffmpeg_def emit_def)
  have 8: "(1::int) \<noteq> 0" by simp
  from conversion_failure_ends_run [OF 1 example_mode_explicit 3 example_tools 5 6 7 8,
      of "[[''e'', ''good.mp4'']]"]
  show ?thesis
    by (simp add: example_out_file converting_msg_def path_str_def upper_def
          upper_char_def emit_def parent_def)
       (simp add: example_state_def)
qed

theorem vbr_q_out_of_range_fatal_witness:
  "main example_env (example_args [''d''] ''vbr'' 12) example_state
     = Some (Inl (SystemExit ''--vbr-q must be between 0 and 9.''), example_state)"
proof -
  have 1: "args_mode (example_args [''d''] ''vbr'' 12) = ''vbr''"
    by (simp add: example_args_def)
  have 2: "args_vbr_q (example_args [''d''] ''vbr'' 12) < 0
           \<or> 9 < args_vbr_q (example_args [''d''] ''vbr'' 12)"
    by (simp add: example_args_def)
  have 3: "exists (fs example_state) (args_input (example_args [''d''] ''vbr'' 12))"
    by (simp add: example_args_def exists_def example_state_def example_fs_def)
  from vbr_q_out_of_range_fatal [OF 1 2, of example_env example_state] 3
  show ?thesis by auto
qed

theorem single_file_input_witness:
  "iter_inputs (fs example_state) [''d'', ''notes.txt''] False = [[''d'', ''notes.txt'']] \<and>
   candidate_files (fs example_state) [''d'', ''notes.txt''] False = [] \<and>
   main example_env (example_args [''d'', ''notes.txt''] ''auto'' 2) example_state
     = Some (Inl (SystemExit ''No MP4/M4V/MOV files found in: /d/notes.txt''), example_state)"
proof -
  have s: "lower (suffix [''d'', ''notes.txt'']) \<notin> VIDEO_EXTS"
    by (simp add: suffix_def name_def lower_def lower_char_def VIDEO_EXTS_def)
  have a: "args_input (example_args [''d'', ''notes.txt''] ''auto'' 2) = [''d'', ''notes.txt'']"
    "args_mode (example_args [''d'', ''notes.txt''] ''auto'' 2) = ''auto''"
    by (simp_all add: example_args_def)
  from single_file_input [OF example_exists(5) example_exists(6), of False
      "example_args [''d'', ''notes.txt''] ''auto'' 2" example_env] s a
  show ?thesis
    by (simp add: path_str_def)
qed

section \<open>The Candidate File Set\<close>

lemma lookup_append:
  "lookup n (p @ r) = (case lookup n p of None \<Rightarrow> None | Some m \<Rightarrow> lookup m r)"
proof (induction p arbitrary: n)
  case Nil
  show ?case by simp
next
  case (Cons x p)
  show ?case
  proof (cases n)
    case (Dir es)
    then show ?thesis by (cases "map_of es x") (simp_all add: Cons.IH)
  qed simp_all
qed

lemma below_Cons:
  "below (Dir (e # es)) = ([fst e] # map ((#) (fst e)) (below (snd e))) @ below (Dir es)"
  by simp

lemma below_Nil: "below (Dir []) = []"
  by simp

lemma below_heads:
  assumes "r \<in> set (below (Dir es))"
  shows "r \<noteq> [] \<and> hd r \<in> fst ` set es"
  using assms
proof (induction es)
  case Nil
  then show ?case by simp
next
  case (Cons e es)
  then show ?case by (auto simp del: below.simps simp add: below_Cons below_Nil)
qed

lemma below_nonempty: "[] \<notin> set (below n)"
proof (cases n)
  case (Dir es)
  then show ?thesis using below_heads [of "[]" es] by blast
qed simp_all

lemma below_entry:
  assumes "(x, c) \<in> set es"
  shows "[x] \<in> set (below (Dir es))"
    and "r \<in> set (below c) \<Longrightarrow> x # r \<in> set (below (Dir es))"
  using assms by (auto intro!: bexI [of _ "(x, c)"])

lemma lookup_in_below:
  assumes "lookup n r = Some m" and "r \<noteq> []"
  shows "r \<in> set (below n)"
  using assms
proof (induction r arbitrary: n)
  case Nil
  then show ?case by simp
next
  case (Cons x r)
  then obtain es c where n: "n = Dir es" and c: "map_of es x = Some c" and l: "lookup c r = Some m"
    by (auto split: node.splits option.splits)
  from c have e: "(x, c) \<in> set es" by (rule map_of_SomeD)
  show ?case
  proof (cases "r = []")
    case True
    with below_entry(1) [OF e] n show ?thesis by simp
  next
    case False
    with Cons.IH [OF l] have "r \<in> set (below c)" .
    with below_entry(2) [OF e] n show ?thesis by simp
  qed
qed

lemma distinct_below_entries:
  assumes "distinct (map fst es)"
    and "\<And>e. e \<in> set es \<Longrightarrow> distinct (below (snd e))"
  shows "distinct (below (Dir es))"
  using assms
proof (induction es)
  case Nil
  show ?case by simp
next
  case (Cons e es)
  have tl: "distinct (below (Dir es))"
    using Cons by simp
  have hd: "distinct ([fst e] # map ((#) (fst e)) (below (snd e)))"
    using Cons.prems(2) [of e] below_nonempty [of "snd e"]
    by (auto simp add: distinct_map)
  have disj: "set ([fst e] # map ((#) (fst e)) (below (snd e))) \<inter> set (below (Dir es)) = {}"
  proof -
    have fresh: "fst e \<notin> fst ` set es"
      using Cons.prems(1) by simp
    have False
      if a: "r \<in> set ([fst e] # map ((#) (fst e)) (below (snd e)))"
        and b: "r \<in> set (below (Dir es))" for r
    proof -
      from a have "hd r = fst e" by auto
      moreover from below_heads [OF b] have "hd r \<in> fst ` set es" by simp
      ultimately show False using fresh by simp
    qed
    then show ?thesis by blast
  qed
  from tl hd disj show ?case
    by (simp only: below_Cons distinct_append)
qed

lemma distinct_below:
  assumes "wf_node n"
  shows "distinct (below n)"
  using assms
proof (induction n rule: below.induct)
  case (1 es)
  have "distinct (below (snd e))" if "e \<in> set es" for e
    using 1 that by (simp add: list_all_iff)
  with 1(2) show ?case
    by (intro distinct_below_entries) simp_all
qed simp_all

lemma wf_lookup:
  assumes "wf_node n" and "lookup n p = Some m"
  shows "wf_node m"
  using assms
proof (induction p arbitrary: n)
  case Nil
  then show ?case by simp
next
  case (Cons x p)
  then obtain es c where n: "n = Dir es" and c: "map_of es x = Some c" and l: "lookup c p = Some m"
    by (auto split: node.splits option.splits)
  from c have "(x, c) \<in> set es" by (rule map_of_SomeD)
  with Cons.prems(1) n have "wf_node c" by (auto simp add: list_all_iff)
  from Cons.IH [OF this l] show ?case .
qed

lemma set_rglob:
  assumes "lookup tree p = Some n"
  shows "{q \<in> set (rglob tree p). is_file tree q} = {q. is_file tree q \<and> (\<exists>r. r \<noteq> [] \<and> q = p @ r)}"
proof -
  have "p @ r \<in> set (rglob tree p)" if "is_file tree (p @ r)" and "r \<noteq> []" for r
  proof -
    from that(1) assms have "lookup n r = Some File"
      by (simp add: is_file_def lookup_append split: option.splits node.splits)
    from lookup_in_below [OF this that(2)] assms show ?thesis
      by (simp add: rglob_def)
  qed
  moreover have "\<exists>r. r \<noteq> [] \<and> q = p @ r" if "q \<in> set (rglob tree p)" for q
    using that assms below_nonempty [of n] by (auto simp add: rglob_def)
  ultimately show ?thesis by blast
qed

lemma distinct_rglob:
  assumes "wf_node tree"
  shows "distinct (rglob tree p)"
proof (cases "lookup tree p")
  case None
  then show ?thesis by (simp add: rglob_def)
next
  case (Some n)
  from distinct_below [OF wf_lookup [OF assms Some]] Some show ?thesis
    by (simp add: rglob_def distinct_map inj_on_def)
qed

lemma set_iterdir:
  assumes "is_dir tree p"
  shows "{q \<in> set (iterdir tree p). is_file tree q} = {q. is_file tree q \<and> (\<exists>x. q = p @ [x])}"
proof -
  from assms obtain es where d: "lookup tree p = Some (Dir es)"
    by (auto simp add: is_dir_def split: option.splits node.splits)
  have "p @ [x] \<in> set (iterdir tree p)" if "is_file tree (p @ [x])" for x
  proof -
    from that d have "map_of es x = Some File"
      by (simp add: is_file_def lookup_append split: option.splits node.splits)
    then have "(x, File) \<in> set es" by (rule map_of_SomeD)
    with d show ?thesis by (force simp add: iterdir_def)
  qed
  moreover have "\<exists>x. q = p @ [x]" if "q \<in> set (iterdir tree p)" for q
    using that d by (auto simp add: iterdir_def)
  ultimately show ?thesis by blast
qed

lemma distinct_iterdir:
  assumes "wf_node tree"
  shows "distinct (iterdir tree p)"
proof (cases "lookup tree p")
  case None
  then show ?thesis by (simp add: iterdir_def)
next
  case (Some n)
  show ?thesis
  proof (cases n)
    case (Dir es)
    from wf_lookup [OF assms Some] Dir have "distinct (map fst es)" by simp
    then have "distinct (map (\<lambda>e. p @ [fst e]) es)"
      by (simp add: distinct_map inj_on_def)
    with Some Dir show ?thesis by (simp add: iterdir_def)
  qed (simp_all add: iterdir_def Some)
qed

lemma distinct_iter_inputs:
  assumes "wf_node tree"
  shows "distinct (iter_inputs tree p recursive)"
  using distinct_rglob [OF assms] distinct_iterdir [OF assms]
  by (simp add: iter_inputs_def)

text \<open>
  Claim C5. For a directory, the Candidate File Set holds exactly the regular files with
  a recognised extension in lower case that are below the directory at any depth when
  the scan is recursive, and exactly those directly in it when the scan is not. The list
  is sorted in the lexicographic order of paths, and it has no duplicates when no
  directory lists a name twice.
\<close>

theorem candidate_files_directory:
  assumes "wf_node tree" and "is_dir tree p"
  shows "set (candidate_files tree p recursive) =
           {q. is_file tree q \<and> lower (suffix q) \<in> VIDEO_EXTS
               \<and> (if recursive then \<exists>r. r \<noteq> [] \<and> q = p @ r else \<exists>x. q = p @ [x])}
         \<and> sorted (candidate_files tree p recursive)
         \<and> distinct (candidate_files tree p recursive)"
proof -
  from assms(2) obtain n where n: "lookup tree p = Some n"
    by (auto simp add: is_dir_def split: option.splits)
  have "set (candidate_files tree p recursive) =
          {q. is_file tree q \<and> lower (suffix q) \<in> VIDEO_EXTS
              \<and> (if recursive then \<exists>r. r \<noteq> [] \<and> q = p @ r else \<exists>x. q = p @ [x])}"
    using set_rglob [OF n] set_iterdir [OF assms(2)] assms(2)
    by (auto simp add: candidate_files_def iter_inputs_def)
  moreover have "sorted (candidate_files tree p recursive)"
    by (simp add: candidate_files_def sorted_wrt_filter)
  moreover have "distinct (candidate_files tree p recursive)"
    using distinct_iter_inputs [OF assms(1)] by (simp add: candidate_files_def)
  ultimately show ?thesis by blast
qed

theorem candidate_files_directory_witness:
  "wf_node example_fs \<and> is_dir example_fs [''d''] \<and>
   candidate_files example_fs [''d''] True
     = [[''d'', ''a.mp4''], [''d'', ''b.mov''], [''d'', ''sub'', ''c.M4V'']] \<and>
   candidate_files example_fs [''d''] False = [[''d'', ''a.mp4''], [''d'', ''b.mov'']] \<and>
   set (candidate_files example_fs [''d''] True) =
     {q. is_file example_fs q \<and> lower (suffix q) \<in> VIDEO_EXTS
         \<and> (\<exists>r. r \<noteq> [] \<and> q = [''d''] @ r)} \<and>
   set (candidate_files example_fs [''d''] False) =
     {q. is_file example_fs q \<and> lower (suffix q) \<in> VIDEO_EXTS \<and> (\<exists>x. q = [''d''] @ [x])}"
proof -
  have w: "wf_node example_fs" by (simp add: example_fs_def)
  have d: "is_dir example_fs [''d'']" by (simp add: is_dir_def example_fs_def)
  have t: "candidate_files example_fs [''d''] True
             = [[''d'', ''a.mp4''], [''d'', ''b.mov''], [''d'', ''sub'', ''c.M4V'']]"
    by code_simp
  have f: "candidate_files example_fs [''d''] False = [[''d'', ''a.mp4''], [''d'', ''b.mov'']]"
    by code_simp
  from candidate_files_directory [OF w d, of True] candidate_files_directory [OF w d, of False]
  have "set (candidate_files example_fs [''d''] True) =
     {q. is_file example_fs q \<and> lower (suffix q) \<in> VIDEO_EXTS
         \<and> (\<exists>r. r \<noteq> [] \<and> q = [''d''] @ r)}"
   and "set (candidate_files example_fs [''d''] False) =
     {q. is_file example_fs q \<and> lower (suffix q) \<in> VIDEO_EXTS \<and> (\<exists>x. q = [''d''] @ [x])}"
    by simp_all
  with w d t f show ?thesis by blast
qed

section \<open>The one-file script: what it shares with the package\<close>

text \<open>
  The script collects the same Candidate File Set: its recursive scan does not test for
  regular files, and the filter of its \<open>main\<close> does.
\<close>

lemma script_candidate_files_eq:
  "script_candidate_files tree in_path recursive = candidate_files tree in_path recursive"
proof -
  have "filter (\<lambda>f. is_file tree f \<and> lower (suffix f) \<in> VIDEO_EXTS)
          (sort (filter (\<lambda>p. lower (suffix p) \<in> VIDEO_EXTS) xs)) =
        filter (\<lambda>f. is_file tree f \<and> lower (suffix f) \<in> VIDEO_EXTS)
          (sort (filter (\<lambda>p. is_file tree p \<and> lower (suffix p) \<in> VIDEO_EXTS) xs))" for xs
  proof -
    have "(\<lambda>x. lower (suffix x) \<in> VIDEO_EXTS
                \<and> is_file tree x \<and> lower (suffix x) \<in> VIDEO_EXTS)
          = (\<lambda>x. is_file tree x \<and> lower (suffix x) \<in> VIDEO_EXTS)"
      by auto
    then show ?thesis by (simp add: filter_sort)
  qed
  then show ?thesis
    by (simp add: script_candidate_files_def candidate_files_def script_iter_inputs_def
          iter_inputs_def)
qed

text \<open>Its transcoding command: the bitrate for \<open>cbr\<close>, the quality level otherwise.\<close>

lemma script_ffmpeg_cmd_modes:
  "script_ffmpeg_cmd input_path output_path overwrite mode bitrate vbr_q =
     [''ffmpeg'', ''-hide_banner'', ''-nostats'', ''-i'', path_str input_path, ''-vn'',
      ''-c:a'', ''libmp3lame'', ''-map_metadata'', ''0'']
     @ (if mode = ''cbr'' then [''-b:a'', bitrate] else [''-q:a'', str_int vbr_q])
     @ [if overwrite then ''-y'' else ''-n'', path_str output_path]"
  by (simp add: script_ffmpeg_cmd_def)

text \<open>An existing destination is skipped when overwriting is not requested.\<close>

lemma script_main_loop_skip_exists:
  assumes "exists (fs s) (script_out_file_of a f)" and "\<not> script_overwrite a"
  shows "script_main_loop env a mode (f # files) s =
           script_main_loop env a mode files
             (emit (Print (Uuml @ ''berspringe (existiert): ''
                           @ path_str (script_out_file_of a f))) s)"
  using assms by (simp add: Let_def)

text \<open>A transcoding process that exits with a non-zero status ends the loop.\<close>

lemma script_main_loop_failure:
  assumes "\<not> (exists (fs s) (script_out_file_of a f) \<and> \<not> script_overwrite a)"
    and "script_run_ffmpeg env f (script_out_file_of a f) (script_overwrite a) mode
           (script_bitrate a) (script_vbr_q a)
           (emit (Print (''Konvertiere: '' @ path_str f @ '' -> ''
                         @ path_str (script_out_file_of a f) @ '' ['' @ upper mode @ '']'')) s)
         = (Inl e, s2)"
  shows "script_main_loop env a mode (f # files) s = (Inl e, s2)"
  using assms by (auto simp add: Let_def)

lemma script_run_ffmpeg_nonzero:
  assumes "script_ensure_ffmpeg env s = Inr ()"
    and "mkdir_parents (fs s) (parent output_path) = Some fs1"
    and "ffmpeg env (script_ffmpeg_cmd input_path output_path overwrite mode bitrate vbr_q)
           (emit (Mkdir (parent output_path)) (s\<lparr>fs := fs1\<rparr>)) = (Returned returncode, fs2)"
    and "returncode \<noteq> 0"
  shows "fst (script_run_ffmpeg env input_path output_path overwrite mode bitrate vbr_q s) =
           Inl (SystemExit (''Konvertierung fehlgeschlagen: '' @ path_str input_path))"
  using assms by (simp add: script_run_ffmpeg_def Let_def)

text \<open>
  With the mode \<open>vbr\<close> given by flag and \<open>--vbr-q\<close> outside 0..9, the script exits
  after the question about subdirectories, if it has to ask it, and before it collects
  any file. With the mode \<open>cbr\<close> it does not look at \<open>--vbr-q\<close>.
\<close>

lemma script_main_vbr_q:
  assumes "exists (fs s) (script_input a)" and "script_mode a = Some ''vbr''"
    and "script_vbr_q a < 0 \<or> 9 < script_vbr_q a"
  shows "script_main env a s =
           (case (if is_dir (fs s) (script_input a) \<and> \<not> script_recursive a
                  then script_ask_yes_no env ''Soll ich Unterordner rekursiv durchsuchen?'' True s
                  else Some (Inr (script_recursive a), s)) of
              None \<Rightarrow> None
            | Some (Inl e, s2) \<Rightarrow> Some (Inl e, s2)
            | Some (Inr recursive, s2) \<Rightarrow>
                Some (Inl (SystemExit ''--vbr-q muss zwischen 0 und 9 liegen.''), s2))"
  using assms
  by (auto simp add: script_main_def Let_def split: option.splits sum.splits prod.splits)

lemma script_main_cbr_example:
  "map_option fst (script_main example_env (example_script_args [''d''] ''cbr'' 42) example_state)
     = Some (Inr ())"
  by code_simp

end
